theory Spec2Isabelle
  imports Complex_Main "HOL-Library.AList"
begin

section \<open>Data model of \<^verbatim>\<open>pymer4/models.py\<close>\<close>

text \<open>
  The development embeds \<^verbatim>\<open>Lm.__init__\<close>, \<^verbatim>\<open>Lm.fit\<close>, \<^verbatim>\<open>Lm.summary\<close>, the head of
  \<^verbatim>\<open>Lm2.fit\<close> with its second-level call, and what \<^verbatim>\<open>Lmer.fit\<close> does to its table
  under bootstrapped intervals. Python floats are modelled as reals (rounding, \<^verbatim>\<open>nan\<close> and
  \<^verbatim>\<open>inf\<close> are outside the model), Python ints as \<open>int\<close>, a pandas Series as the list
  of its cells in row order, and a DataFrame as the list of its named columns in column
  order. Cells are numbers or strings; missing values are outside the model, so
  \<^verbatim>\<open>nunique\<close> and \<^verbatim>\<open>ngroups\<close> count all distinct cells and patsy keeps every row.
  Text written to standard output (\<^verbatim>\<open>verbose\<close>, the header lines of \<^verbatim>\<open>summary\<close>) is not
  modelled.
\<close>

datatype error =
    ValueError string
  | KeyError string
  | AttributeError string
  | IndexError string
  | TypeError string
  | NotImplementedError string
  | RuntimeError string

datatype cell = Num real | Str string

type_synonym series = "cell list"

type_synonym frame = "(string \<times> series) list"

text \<open>The design matrix \<^verbatim>\<open>x\<close> returned by patsy: column names and rows of numbers.\<close>

record design =
  names :: "string list"
  rows :: "real list list"

text \<open>The coefficient table \<^verbatim>\<open>results\<close>: row labels and named columns, in order.\<close>

record table =
  index :: "string list"
  columns :: "(string \<times> series) list"

text \<open>The value of the argument \<^verbatim>\<open>robust\<close>: a bool or a string.\<close>

datatype robust_arg = RBool bool | RStr string

text \<open>
  The value of the variable \<^verbatim>\<open>cluster\<close> once the argument has been looked at: still
  \<^verbatim>\<open>None\<close>, still the string that was passed, or the column of the data it names.
\<close>

datatype cluster_val = CNone | CName string | CSeries series

text \<open>The value of the argument \<^verbatim>\<open>weights\<close>: absent, a column name, or an array.\<close>

datatype weights_arg = WNone | WName string | WArray "real list"

text \<open>What the fit does to the outside: warnings raised and parallel dispatches.\<close>

datatype event =
    Warning string
  | Parallel string int nat

record lm =
  family :: string
  fitted :: bool
  formula :: string
  data :: frame
  AIC :: "real option"
  BIC :: "real option"
  logLike :: "real option"
  warnings :: "string list"
  resid :: "real list option"
  fits :: "real list option"
  coefs :: "table option"
  design_matrix :: "design option"
  ci_type :: "string option"
  se_type :: "string option"
  sig_type :: "string option"
  ranked_data :: bool
  estimator :: "string option"
  rsquared :: "real option"
  rsquared_adj :: "real option"

record fit_args =
  robust :: robust_arg
  conf_int :: string
  permute :: "int option"
  rank :: bool
  summarize :: bool
  verbose :: bool
  n_boot :: int
  n_jobs :: int
  n_lags :: int
  cluster :: "string option"
  weights :: weights_arg
  wls_dof_correction :: bool

text \<open>
  The collaborators of \<^verbatim>\<open>Lm.fit\<close> that live outside \<^verbatim>\<open>models.py\<close>
  (\<^verbatim>\<open>pymer4.utils\<close>, \<^verbatim>\<open>pymer4.stats\<close>, patsy, numpy, scipy, pandas) are parameters of
  the model. Those that can raise return a sum.
\<close>

record env =
  dmatrices :: "string \<Rightarrow> frame \<Rightarrow> error + (real list \<times> design)"
  frame_rank :: "frame \<Rightarrow> frame"
  ols :: "design \<Rightarrow> real list \<Rightarrow> robust_arg \<Rightarrow> int \<Rightarrow> cluster_val \<Rightarrow> real list option
            \<Rightarrow> error + (real list \<times> real list \<times> real list \<times> real list)"
  chunk_boot_ols_coefs :: "frame \<Rightarrow> string \<Rightarrow> weights_arg \<Rightarrow> int \<Rightarrow> error + real list"
  chunk_perm_ols :: "design \<Rightarrow> real list \<Rightarrow> robust_arg \<Rightarrow> int \<Rightarrow> cluster_val \<Rightarrow> weights_arg
            \<Rightarrow> int \<Rightarrow> error + real list"
  perm_find :: "real list \<Rightarrow> real \<Rightarrow> real"
  sig_stars :: "real \<Rightarrow> string"
  welch_ingredients :: "real list \<Rightarrow> real \<times> real"
  calc_rsquared :: "real list \<Rightarrow> real list \<Rightarrow> bool \<Rightarrow> real"
  calc_rsquared_adj :: "real \<Rightarrow> nat \<Rightarrow> int \<Rightarrow> bool \<Rightarrow> real"
  t_cdf :: "real \<Rightarrow> real \<Rightarrow> real"
  t_ppf :: "real \<Rightarrow> real \<Rightarrow> real"
  np_var :: "real list \<Rightarrow> real"
  np_percentile :: "real list list \<Rightarrow> real \<Rightarrow> error + real list"
  np_random_randint :: "nat \<Rightarrow> int \<Rightarrow> nat \<Rightarrow> (nat \<Rightarrow> int) \<times> nat"
  np_log :: "real \<Rightarrow> real"
  np_pi :: real
  np_round :: "nat \<Rightarrow> real \<Rightarrow> real"

text \<open>
  The state a call works on: the model object, the effects so far, and the state of
  numpy's global random generator.
\<close>

record world =
  self :: lm
  emitted :: "event list"
  rng :: nat

section \<open>Python helpers\<close>

fun truthy_robust :: "robust_arg \<Rightarrow> bool" where
  "truthy_robust (RBool b) = b"
| "truthy_robust (RStr s) = (s \<noteq> [])"

fun truthy_int :: "int option \<Rightarrow> bool" where
  "truthy_int None = False"
| "truthy_int (Some n) = (n \<noteq> 0)"

text \<open>\<^verbatim>\<open>str(n)\<close> for a Python int.\<close>

fun str_nat :: "nat \<Rightarrow> string" where
  "str_nat n = (if n < 10 then [''0123456789'' ! n]
                else str_nat (n div 10) @ [''0123456789'' ! (n mod 10)])"

definition str_int :: "int \<Rightarrow> string" where
  "str_int i = (if i < 0 then CHR ''-'' # str_nat (nat (- i)) else str_nat (nat i))"

text \<open>\<^verbatim>\<open>s.replace(" ", "")\<close> and \<^verbatim>\<open>s.split("~")[0]\<close>.\<close>

definition strip_spaces :: "string \<Rightarrow> string" where
  "strip_spaces s = filter (\<lambda>c. c \<noteq> CHR '' '') s"

definition split_tilde_first :: "string \<Rightarrow> string" where
  "split_tilde_first s = takeWhile (\<lambda>c. c \<noteq> CHR ''~'') s"

text \<open>\<^verbatim>\<open>Series.nunique()\<close> and \<^verbatim>\<open>DataFrame.shape\<close>.\<close>

definition nunique :: "series \<Rightarrow> nat" where
  "nunique s = length (remdups s)"

definition shape0 :: "design \<Rightarrow> nat" where
  "shape0 x = length (rows x)"

definition shape1 :: "design \<Rightarrow> nat" where
  "shape1 x = length (names x)"

text \<open>\<^verbatim>\<open>warnings.warn(w); self.warnings.append(w)\<close>.\<close>

definition warn :: "string \<Rightarrow> world \<Rightarrow> world" where
  "warn msg w = w\<lparr>emitted := emitted w @ [Warning msg],
                  self := (self w)\<lparr>warnings := warnings (self w) @ [msg]\<rparr>\<rparr>"

section \<open>\<^verbatim>\<open>Lm.__init__\<close>\<close>

definition Lm_init :: "string \<Rightarrow> frame \<Rightarrow> string \<Rightarrow> error + lm" where
  "Lm_init fml dat fam =
     (if fam \<noteq> ''gaussian''
      then Inl (NotImplementedError
                  ''Currently only linear (family ='gaussian') models supported! '')
      else Inr \<lparr>family = fam, fitted = False, formula = strip_spaces fml, data = dat,
                AIC = None, BIC = None, logLike = None, warnings = [], resid = None,
                fits = None, coefs = None, design_matrix = None, ci_type = None,
                se_type = None, sig_type = None, ranked_data = False, estimator = None,
                rsquared = None, rsquared_adj = None\<rparr>)"

section \<open>\<^verbatim>\<open>Lm.fit\<close>\<close>

subsection \<open>Lines 1389 to 1405: permutation count, robust estimator, cluster column\<close>

definition low_permute_msg :: string where
  "low_permute_msg = ''Permutation testing < 500 permutations is not recommended''"

definition check_permute :: "int option \<Rightarrow> world \<Rightarrow> world" where
  "check_permute pm w =
     (case pm of
        None \<Rightarrow> w
      | Some n \<Rightarrow> if n \<noteq> 0 \<and> n < 500 then warn low_permute_msg w else w)"

definition set_se_type :: "string \<Rightarrow> world \<Rightarrow> world" where
  "set_se_type s w = w\<lparr>self := (self w)\<lparr>se_type := Some s\<rparr>\<rparr>"

definition select_robust ::
  "robust_arg \<Rightarrow> string option \<Rightarrow> world \<Rightarrow> world \<times> (error + robust_arg \<times> cluster_val)" where
  "select_robust rb cl w =
     (if truthy_robust rb then
        let name = (case rb of RBool _ \<Rightarrow> ''hc1'' | RStr s \<Rightarrow> s);
            w1 = set_se_type (''robust'' @ '' ('' @ name @ '')'') w
        in (case cl of
              None \<Rightarrow> (w1, Inr (RStr name, CNone))
            | Some c \<Rightarrow>
                if c \<noteq> [] then
                  (case map_of (data (self w1)) c of
                     None \<Rightarrow> (w1, Inl (ValueError
                                ''cluster identifier must be an existing column in data''))
                   | Some col \<Rightarrow> (w1, Inr (RStr name, CSeries col)))
                else (w1, Inr (RStr name, CName c)))
      else (set_se_type ''non-robust'' w,
            Inr (rb, case cl of None \<Rightarrow> CNone | Some c \<Rightarrow> CName c)))"

subsection \<open>Lines 1444 to 1478: inference labels, ranking, weights\<close>

definition set_labels :: "fit_args \<Rightarrow> world \<Rightarrow> world" where
  "set_labels a w =
     w\<lparr>self := (self w)\<lparr>
         ci_type := Some (if conf_int a = ''boot''
                          then conf_int a @ '' ('' @ str_int (n_boot a) @ '')''
                          else conf_int a),
         sig_type := Some (if conf_int a = ''boot'' \<and> permute a = None then ''bootstrapped''
                           else (case permute a of
                                   None \<Rightarrow> ''parametric''
                                 | Some n \<Rightarrow> if n \<noteq> 0
                                     then ''permutation'' @ '' ('' @ str_int n @ '')''
                                     else ''parametric'')),
         ranked_data := rank a\<rparr>\<rparr>"

text \<open>The rows of \<open>vals\<close> whose key in \<open>keys\<close> is \<open>k\<close>: one group of a \<^verbatim>\<open>groupby\<close>.\<close>

definition group_values :: "series \<Rightarrow> real list \<Rightarrow> cell \<Rightarrow> real list" where
  "group_values keys vals k = map snd (filter (\<lambda>kv. fst kv = k) (zip keys vals))"

fun series_reals :: "series \<Rightarrow> error + real list" where
  "series_reals [] = Inr []"
| "series_reals (Num r # cs) =
     (case series_reals cs of Inl e \<Rightarrow> Inl e | Inr rs \<Rightarrow> Inr (r # rs))"
| "series_reals (Str s # cs) = Inl (TypeError ''could not convert string to float'')"

text \<open>
  The weights handed to \<^verbatim>\<open>_ols\<close>, and for a column name also the grouping column and
  the values of the dependent variable, which the degrees of freedom need later.
\<close>

definition handle_weights ::
  "env \<Rightarrow> weights_arg \<Rightarrow> lm \<Rightarrow> error + (real list option \<times> (series \<times> real list) option)" where
  "handle_weights E wt m =
     (case wt of
        WName nm \<Rightarrow>
          (case map_of (data m) nm of
             None \<Rightarrow> Inl (ValueError
                        ''If weights is a string it must be a column that exists in the data'')
           | Some keys \<Rightarrow>
               (case map_of (data m) (split_tilde_first (formula m)) of
                  None \<Rightarrow> Inl (KeyError (split_tilde_first (formula m)))
                | Some dvcol \<Rightarrow>
                    (case series_reals dvcol of
                       Inl e \<Rightarrow> Inl e
                     | Inr vals \<Rightarrow>
                         Inr (Some (map (\<lambda>k. 1 / np_var E (group_values keys vals k)) keys),
                              Some (keys, vals)))))
      | WArray v \<Rightarrow> Inr (Some v, None)
      | WNone \<Rightarrow> Inr (None, None))"

definition set_estimator :: "weights_arg \<Rightarrow> world \<Rightarrow> world" where
  "set_estimator wt w =
     w\<lparr>self := (self w)\<lparr>estimator := Some (if wt = WNone then ''OLS'' else ''WLS'')\<rparr>\<rparr>"

subsection \<open>Lines 1493 to 1514: degrees of freedom\<close>

definition welch_msg :: string where
  "welch_msg = ''Welch-Satterthwait DOF correction only supported for 2 groups in the data''"

text \<open>
  \<^verbatim>\<open>np.power(welch_ingredients[:, 0].sum(), 2) / welch_ingredients[:, 1].sum()\<close>, the
  ingredients taken per group of the weights column.
\<close>

definition welch_df :: "env \<Rightarrow> series \<Rightarrow> real list \<Rightarrow> real" where
  "welch_df E keys vals =
     (let ing = map (\<lambda>k. welch_ingredients E (group_values keys vals k)) (remdups keys)
      in (sum_list (map fst ing))\<^sup>2 / sum_list (map snd ing))"

definition resolve_df ::
  "env \<Rightarrow> fit_args \<Rightarrow> cluster_val \<Rightarrow> design \<Rightarrow> (series \<times> real list) option \<Rightarrow> world
     \<Rightarrow> world \<times> (error + real)" where
  "resolve_df E a cl x wg w =
     (case cl of
        CSeries col \<Rightarrow> (w, Inr (real_of_int (int (nunique col) - int (shape1 x))))
      | CName s \<Rightarrow> (w, Inl (AttributeError ''str object has no attribute nunique''))
      | CNone \<Rightarrow>
          (case wg of
             Some (keys, vals) \<Rightarrow>
               if wls_dof_correction a then
                 if nunique keys \<noteq> 2
                 then (warn welch_msg w, Inr (real_of_int (int (shape0 x) - int (shape1 x))))
                 else (w, Inr (welch_df E keys vals))
               else (w, Inr (real_of_int (int (shape0 x) - int (shape1 x))))
           | None \<Rightarrow> (w, Inr (real_of_int (int (shape0 x) - int (shape1 x))))))"

subsection \<open>Lines 1516 to 1543: parametric p-values and confidence intervals\<close>

definition parametric_p :: "env \<Rightarrow> real list \<Rightarrow> real \<Rightarrow> real list" where
  "parametric_p E t df = map (\<lambda>ti. 2 * (1 - t_cdf E \<bar>ti\<bar> df)) t"

text \<open>
  A dispatch through \<^verbatim>\<open>joblib.Parallel\<close> is an event with the name of the function, the
  worker count and the number of tasks, followed by the results of the workers in task
  order; the first exception ends it. What joblib itself makes of a worker count, such as
  refusing 0, is not modelled.
\<close>

fun collect :: "(error + 'a) list \<Rightarrow> error + 'a list" where
  "collect [] = Inr []"
| "collect (Inl e # rs) = Inl e"
| "collect (Inr v # rs) = (case collect rs of Inl e \<Rightarrow> Inl e | Inr vs \<Rightarrow> Inr (v # vs))"

definition int32_max :: int where
  "int32_max = 2147483647"

definition negative_size :: error where
  "negative_size = ValueError ''negative dimensions are not allowed''"

text \<open>
  \<^verbatim>\<open>np.random.randint(np.iinfo(np.int32).max, size=n)\<close>: the generator hands out the
  seeds by position and moves on.
\<close>

definition draw_seeds :: "env \<Rightarrow> int \<Rightarrow> world \<Rightarrow> world \<times> (error + int list)" where
  "draw_seeds E n w =
     (if n < 0 then (w, Inl negative_size)
      else (w\<lparr>rng := snd (np_random_randint E (rng w) int32_max (nat n))\<rparr>,
            Inr (map (fst (np_random_randint E (rng w) int32_max (nat n))) [0..<nat n])))"

definition dispatch :: "string \<Rightarrow> int \<Rightarrow> nat \<Rightarrow> world \<Rightarrow> world" where
  "dispatch fn jobs tasks w = w\<lparr>emitted := emitted w @ [Parallel fn jobs tasks]\<rparr>"

definition bootstrap_ci ::
  "env \<Rightarrow> fit_args \<Rightarrow> world \<Rightarrow> world \<times> (error + real list \<times> real list)" where
  "bootstrap_ci E a w =
     (case draw_seeds E (n_boot a) w of
        (w1, Inl e) \<Rightarrow> (w1, Inl e)
      | (w1, Inr seeds) \<Rightarrow>
          let w2 = dispatch ''_chunk_boot_ols_coefs'' (n_jobs a) (length seeds) w1 in
          (case collect (map (chunk_boot_ols_coefs E (data (self w)) (formula (self w))
                                (weights a)) seeds) of
             Inl e \<Rightarrow> (w2, Inl e)
           | Inr boot_betas \<Rightarrow>
               (case np_percentile E boot_betas 97.5 of
                  Inl e \<Rightarrow> (w2, Inl e)
                | Inr ci_u \<Rightarrow>
                    (case np_percentile E boot_betas 2.5 of
                       Inl e \<Rightarrow> (w2, Inl e)
                     | Inr ci_l \<Rightarrow> (w2, Inr (ci_l, ci_u))))))"

definition parametric_ci ::
  "env \<Rightarrow> real \<Rightarrow> real list \<Rightarrow> real list \<Rightarrow> real list \<Rightarrow> real list" where
  "parametric_ci E q b dfs se =
     map (\<lambda>(bi, d, s). bi + t_ppf E q d * s) (zip b (zip dfs se))"

definition confidence_intervals ::
  "env \<Rightarrow> fit_args \<Rightarrow> real list \<Rightarrow> real list \<Rightarrow> real list \<Rightarrow> world
     \<Rightarrow> world \<times> (error + real list \<times> real list)" where
  "confidence_intervals E a b se dfs w =
     (if conf_int a = ''boot'' then bootstrap_ci E a w
      else (w, Inr (parametric_ci E 0.025 b dfs se, parametric_ci E 0.975 b dfs se)))"

subsection \<open>Lines 1545 to 1573: permutation test\<close>

text \<open>\<^verbatim>\<open>perm_ts.shape[1]\<close> of \<^verbatim>\<open>np.array(perm_ts)\<close>: only a rectangular array has it.\<close>

definition array_shape1 :: "real list list \<Rightarrow> error + nat" where
  "array_shape1 m =
     (case m of
        [] \<Rightarrow> Inl (IndexError ''tuple index out of range'')
      | r # rs \<Rightarrow> if list_all (\<lambda>r'. length r' = length r) rs then Inr (length r)
                  else Inl (IndexError ''tuple index out of range''))"

text \<open>\<^verbatim>\<open>perm_ts[:, col]\<close>.\<close>

definition column_of :: "real list list \<Rightarrow> nat \<Rightarrow> real list" where
  "column_of m col = map (\<lambda>r. r ! col) m"

definition perm_p_values :: "env \<Rightarrow> real list list \<Rightarrow> nat \<Rightarrow> real list \<Rightarrow> real list" where
  "perm_p_values E perm_ts ncols t =
     map (\<lambda>(col, fit_t). perm_find E (column_of perm_ts col) fit_t) (zip [0..<ncols] t)"

definition perm_n_jobs :: "robust_arg \<Rightarrow> int \<Rightarrow> int" where
  "perm_n_jobs rb jobs = (if truthy_robust rb then 1 else jobs)"

definition permutation_test ::
  "env \<Rightarrow> fit_args \<Rightarrow> int \<Rightarrow> robust_arg \<Rightarrow> cluster_val \<Rightarrow> design \<Rightarrow> real list \<Rightarrow> real list
     \<Rightarrow> world \<Rightarrow> world \<times> (error + real list \<times> real list \<times> string list)" where
  "permutation_test E a pm rb cl x y t w =
     (case draw_seeds E pm w of
        (w1, Inl e) \<Rightarrow> (w1, Inl e)
      | (w1, Inr seeds) \<Rightarrow>
          let w2 = dispatch ''_chunk_perm_ols'' (perm_n_jobs rb (n_jobs a)) (length seeds) w1 in
          (case collect (map (chunk_perm_ols E x y rb (n_lags a) cl (weights a)) seeds) of
             Inl e \<Rightarrow> (w2, Inl e)
           | Inr perm_ts \<Rightarrow>
               (case array_shape1 perm_ts of
                  Inl e \<Rightarrow> (w2, Inl e)
                | Inr ncols \<Rightarrow>
                    let p = perm_p_values E perm_ts ncols t
                    in (w2, Inr (p, replicate (length p) (real_of_int pm),
                                 map (sig_stars E) p)))))"

subsection \<open>Lines 1575 to 1598: the coefficient table\<close>

definition shape_mismatch :: error where
  "shape_mismatch = ValueError ''all the input array dimensions must match exactly''"

definition rename_column :: "string \<Rightarrow> string" where
  "rename_column c = (if c = ''DF'' then ''Num_perm''
                      else if c = ''P-val'' then ''Perm-P-val'' else c)"

definition make_results ::
  "fit_args \<Rightarrow> design \<Rightarrow> real list \<Rightarrow> real list \<Rightarrow> real list \<Rightarrow> real list \<Rightarrow> real list
     \<Rightarrow> real list \<Rightarrow> real list \<Rightarrow> string list \<Rightarrow> error + table" where
  "make_results a x b ci_l ci_u se df t p sig =
     (if list_all (\<lambda>n. n = length b)
           [length ci_l, length ci_u, length se, length df, length t, length p, length sig,
            length (names x)]
      then
        let cols = [(''Estimate'', map Num b), (''2.5_ci'', map Num ci_l),
                    (''97.5_ci'', map Num ci_u), (''SE'', map Num se), (''DF'', map Num df),
                    (''T-stat'', map Num t), (''P-val'', map Num p), (''Sig'', map Str sig)]
        in Inr \<lparr>index = names x,
                columns = (if truthy_int (permute a)
                           then map (\<lambda>(c, v). (rename_column c, v)) cols else cols)\<rparr>
      else Inl shape_mismatch)"

subsection \<open>Lines 1600 to 1623: what the fit stores, fit statistics, summary\<close>

definition length_mismatch :: error where
  "length_mismatch = ValueError ''Length of values does not match length of index''"

definition nrows :: "frame \<Rightarrow> nat" where
  "nrows d = (case d of [] \<Rightarrow> 0 | c # cs \<Rightarrow> length (snd c))"

definition set_column :: "string \<Rightarrow> series \<Rightarrow> lm \<Rightarrow> lm" where
  "set_column c v m = m\<lparr>data := AList.update c v (data m)\<rparr>"

definition fit_statistics :: "env \<Rightarrow> design \<Rightarrow> real list \<Rightarrow> real list \<Rightarrow> lm \<Rightarrow> lm" where
  "fit_statistics E x y res m =
     (let center_tss = (''Intercept'' \<in> set (names x));
          r2 = calc_rsquared E y res center_tss;
          half_obs = real (length res) / 2;
          ssr = sum_list (map (\<lambda>r. r * r) res);
          ll = (- np_log E ssr * half_obs) - ((1 + np_log E (np_pi E / half_obs)) * half_obs)
      in m\<lparr>rsquared := Some r2,
            rsquared_adj := Some (calc_rsquared_adj E r2 (length res)
                                    (int (length res) - int (shape1 x)) center_tss),
            logLike := Some ll,
            AIC := Some (2 * real (shape1 x) - 2 * ll),
            BIC := Some (np_log E (real (length res)) * real (shape1 x) - 2 * ll)\<rparr>)"

text \<open>\<^verbatim>\<open>Lm.summary\<close>: the value it returns, \<^verbatim>\<open>self.coefs.round(3)\<close>.\<close>

fun round_cell :: "env \<Rightarrow> cell \<Rightarrow> cell" where
  "round_cell E (Num r) = Num (np_round E 3 r)"
| "round_cell E (Str s) = Str s"

definition summary :: "env \<Rightarrow> lm \<Rightarrow> error + table" where
  "summary E m =
     (if \<not> fitted m then Inl (RuntimeError ''Model must be fit to generate summary!'')
      else (case coefs m of
              None \<Rightarrow> Inl (AttributeError ''NoneType object has no attribute round'')
            | Some c \<Rightarrow> Inr (c\<lparr>columns := map (\<lambda>(n, v). (n, map (round_cell E) v))
                                               (columns c)\<rparr>)))"

definition store_results ::
  "env \<Rightarrow> fit_args \<Rightarrow> design \<Rightarrow> real list \<Rightarrow> real list \<Rightarrow> table \<Rightarrow> world
     \<Rightarrow> world \<times> (error + table option)" where
  "store_results E a x y res results w =
     (let m1 = (self w)\<lparr>coefs := Some results, fitted := True, resid := Some res\<rparr> in
      if length y \<noteq> length res then (w\<lparr>self := m1\<rparr>, Inl shape_mismatch)
      else
        let fts = map (\<lambda>(yi, ri). yi - ri) (zip y res);
            m2 = set_column ''fits'' (map Num fts) (m1\<lparr>fits := Some fts\<rparr>)
        in if length res \<noteq> nrows (data m2) then (w\<lparr>self := m2\<rparr>, Inl length_mismatch)
           else
             let m3 = fit_statistics E x y res (set_column ''residuals'' (map Num res) m2)
             in if summarize a
                then (case summary E m3 of
                        Inl e \<Rightarrow> (w\<lparr>self := m3\<rparr>, Inl e)
                      | Inr s \<Rightarrow> (w\<lparr>self := m3\<rparr>, Inr (Some s)))
                else (w\<lparr>self := m3\<rparr>, Inr None))"

subsection \<open>The whole of \<^verbatim>\<open>Lm.fit\<close>\<close>

text \<open>
  The p-values, the degrees-of-freedom column and the markers: parametric (lines 1516 to
  1518) unless \<^verbatim>\<open>permute\<close> is truthy, in which case the permutation test replaces them.
\<close>

definition significance ::
  "env \<Rightarrow> fit_args \<Rightarrow> robust_arg \<Rightarrow> cluster_val \<Rightarrow> design \<Rightarrow> real list \<Rightarrow> real list \<Rightarrow> real
     \<Rightarrow> world \<Rightarrow> world \<times> (error + real list \<times> real list \<times> string list)" where
  "significance E a rb cl x y t df w =
     (case permute a of
        None \<Rightarrow> (w, Inr (parametric_p E t df, replicate (length t) df,
                         map (sig_stars E) (parametric_p E t df)))
      | Some pm \<Rightarrow>
          if pm \<noteq> 0 then permutation_test E a pm rb cl x y t w
          else (w, Inr (parametric_p E t df, replicate (length t) df,
                        map (sig_stars E) (parametric_p E t df))))"

definition inference ::
  "env \<Rightarrow> fit_args \<Rightarrow> robust_arg \<Rightarrow> cluster_val \<Rightarrow> design \<Rightarrow> real list \<Rightarrow> real list
     \<Rightarrow> real list \<Rightarrow> real list \<Rightarrow> real list \<Rightarrow> real \<Rightarrow> world
     \<Rightarrow> world \<times> (error + table option)" where
  "inference E a rb cl x y b se t res df w =
     (case confidence_intervals E a b se (replicate (length t) df) w of
        (w1, Inl e) \<Rightarrow> (w1, Inl e)
      | (w1, Inr (ci_l, ci_u)) \<Rightarrow>
          (case significance E a rb cl x y t df w1 of
             (w2, Inl e) \<Rightarrow> (w2, Inl e)
           | (w2, Inr (p, dfs, sig)) \<Rightarrow>
               (case make_results a x b ci_l ci_u se dfs t p sig of
                  Inl e \<Rightarrow> (w2, Inl e)
                | Inr results \<Rightarrow> store_results E a x y res results w2)))"

text \<open>Lines 1393 to 1623: the fit once the permutation count has been looked at.\<close>

definition fit_after_check ::
  "env \<Rightarrow> fit_args \<Rightarrow> world \<Rightarrow> world \<times> (error + table option)" where
  "fit_after_check E a w0 =
     (case select_robust (robust a) (cluster a) w0 of
        (w1, Inl e) \<Rightarrow> (w1, Inl e)
      | (w1, Inr (rb, cl)) \<Rightarrow>
          let w2 = set_labels a w1;
              ddat = (if rank a then frame_rank E (data (self w2)) else data (self w2))
          in (case handle_weights E (weights a) (self w2) of
                Inl e \<Rightarrow> (w2, Inl e)
              | Inr (weight_vals, wg) \<Rightarrow>
                  let w3 = set_estimator (weights a) w2 in
                  (case dmatrices E (formula (self w3)) ddat of
                     Inl e \<Rightarrow> (w3, Inl e)
                   | Inr (y, x) \<Rightarrow>
                       let w4 = w3\<lparr>self := (self w3)\<lparr>design_matrix := Some x\<rparr>\<rparr> in
                       (case ols E x y rb (n_lags a) cl weight_vals of
                          Inl e \<Rightarrow> (w4, Inl e)
                        | Inr (b, se, t, res) \<Rightarrow>
                            (case resolve_df E a cl x wg w4 of
                               (w5, Inl e) \<Rightarrow> (w5, Inl e)
                             | (w5, Inr df) \<Rightarrow>
                                 inference E a rb cl x y b se t res df w5)))))"

definition fit :: "env \<Rightarrow> fit_args \<Rightarrow> world \<Rightarrow> world \<times> (error + table option)" where
  "fit E a w0 = fit_after_check E a (check_permute (permute a) w0)"

section \<open>\<^verbatim>\<open>Lm2.fit\<close>, lines 1860 to 1896 and the second-level call\<close>

text \<open>
  An \<^verbatim>\<open>Lm2\<close> object has the attributes it shares with \<^verbatim>\<open>Lm\<close> and its own.
\<close>

record lm2 = lm +
  group :: string
  fixef :: "table option"
  iscorrs :: bool

datatype corrs_arg = TBool bool | TStr string

definition Lm2_fit_head ::
  "robust_arg \<Rightarrow> string \<Rightarrow> int option \<Rightarrow> string \<Rightarrow> bool \<Rightarrow> int \<Rightarrow> corrs_arg \<Rightarrow> string option
     \<Rightarrow> lm2 \<Rightarrow> lm2 \<times> (error + robust_arg \<times> cluster_val)" where
  "Lm2_fit_head rb conf pm perm_on rk nboot to_corrs cl m =
     (case (if truthy_robust rb then
              let name = (case rb of RBool _ \<Rightarrow> ''hc0'' | RStr s \<Rightarrow> s);
                  m1 = m\<lparr>se_type := Some (''robust'' @ '' ('' @ name @ '')'')\<rparr>
              in (case cl of
                    None \<Rightarrow> (m1, Inr (RStr name, CNone))
                  | Some c \<Rightarrow>
                      if c \<noteq> [] then
                        (case map_of (data m1) c of
                           None \<Rightarrow> (m1, Inl (ValueError
                                      ''cluster identifier must be an existing column in data''))
                         | Some col \<Rightarrow> (m1, Inr (RStr name, CSeries col)))
                      else (m1, Inr (RStr name, CName c)))
            else (m\<lparr>se_type := Some ''non-robust''\<rparr>,
                  Inr (rb, case cl of None \<Rightarrow> CNone | Some c \<Rightarrow> CName c))) of
        (m1, Inl e) \<Rightarrow> (m1, Inl e)
      | (m1, Inr sel) \<Rightarrow>
          let m2 = m1\<lparr>ci_type := Some (if conf = ''boot''
                                         then conf @ '' ('' @ str_int nboot @ '')'' else conf)\<rparr>
          in if (case to_corrs of TStr s \<Rightarrow> s \<notin> set [''semi'', ''partial''] | TBool _ \<Rightarrow> False)
             then (m2, Inl (ValueError ''to_corrs must be 'semi' or 'partial' ''))
             else if conf = ''boot'' \<and> pm = None
               then (m2\<lparr>sig_type := Some ''bootstrapped'', ranked_data := rk\<rparr>, Inr sel)
             else if truthy_int pm
               then if perm_on \<notin> set [''mean'', ''t-stat'']
                    then (m2, Inl (ValueError ''perm_on must be 't-stat' or 'mean' ''))
                    else (m2\<lparr>sig_type := Some (''permutation'' @ '' ('' @
                                 str_int (case pm of Some n \<Rightarrow> n | None \<Rightarrow> 0) @ '')''),
                             ranked_data := rk\<rparr>, Inr sel)
             else (m2\<lparr>sig_type := Some ''parametric'', ranked_data := rk\<rparr>, Inr sel))"

text \<open>
  Lines 1937 to 1945: the arguments of the call \<^verbatim>\<open>lm.fit(robust=robust, ...)\<close> that fits
  each second-level model; the arguments not passed take the defaults of \<^verbatim>\<open>Lm.fit\<close>.
\<close>

definition second_level_args :: "robust_arg \<Rightarrow> string \<Rightarrow> int \<Rightarrow> int \<Rightarrow> int \<Rightarrow> fit_args" where
  "second_level_args rb conf nboot njobs nlags =
     \<lparr>robust = rb, conf_int = conf, permute = None, rank = False, summarize = False,
      verbose = False, n_boot = nboot, n_jobs = njobs, n_lags = nlags, cluster = None,
      weights = WNone, wls_dof_correction = True\<rparr>"

section \<open>\<^verbatim>\<open>Lmer.fit\<close>, lines 570 to 577\<close>

text \<open>
  What \<^verbatim>\<open>Lmer.fit\<close> does to its coefficient table \<^verbatim>\<open>df\<close> when bootstrapped intervals
  are requested without a permutation test: it drops the p-values, the markers and the
  degrees of freedom, and marks the rows whose interval bounds have a positive product.
\<close>

definition has_column :: "string \<Rightarrow> table \<Rightarrow> bool" where
  "has_column c t = (c \<in> set (map fst (columns t)))"

definition drop_columns :: "string list \<Rightarrow> table \<Rightarrow> error + table" where
  "drop_columns cs t =
     (if list_all (\<lambda>c. has_column c t) cs
      then Inr (t\<lparr>columns := filter (\<lambda>cv. fst cv \<notin> set cs) (columns t)\<rparr>)
      else Inl (KeyError ''not found in axis''))"

definition interval_marker :: "real \<Rightarrow> real \<Rightarrow> string" where
  "interval_marker lo hi = (if lo * hi > 0 then ''*'' else [])"

definition Lmer_boot_significance :: "string \<Rightarrow> int option \<Rightarrow> table \<Rightarrow> error + table" where
  "Lmer_boot_significance conf pm df =
     (if conf = ''boot'' \<and> pm = None then
        (case drop_columns [''P-val'', ''Sig''] df of
           Inl e \<Rightarrow> Inl e
         | Inr df1 \<Rightarrow>
             (case (if has_column ''DF'' df1 then drop_columns [''DF''] df1 else Inr df1) of
                Inl e \<Rightarrow> Inl e
              | Inr df2 \<Rightarrow>
                  (case map_of (columns df2) ''2.5_ci'' of
                     None \<Rightarrow> Inl (KeyError ''2.5_ci'')
                   | Some lo \<Rightarrow>
                       (case map_of (columns df2) ''97.5_ci'' of
                          None \<Rightarrow> Inl (KeyError ''97.5_ci'')
                        | Some hi \<Rightarrow>
                            (case series_reals lo of
                               Inl e \<Rightarrow> Inl e
                             | Inr l \<Rightarrow>
                                 (case series_reals hi of
                                    Inl e \<Rightarrow> Inl e
                                  | Inr u \<Rightarrow>
                                      Inr (df2\<lparr>columns :=
                                             AList.update ''Sig''
                                               (map (\<lambda>(lo_i, hi_i). Str (interval_marker lo_i hi_i))
                                                  (zip l u))
                                               (columns df2)\<rparr>)))))))
      else Inr df)"

section \<open>Collaborators described by the specification\<close>

text \<open>
  Modelled from the spec: \<^verbatim>\<open>_perm_find\<close> of \<^verbatim>\<open>pymer4.utils\<close>, which is not part of
  \<^verbatim>\<open>models.py\<close>. Section 4.3: the empirical p-value of an observed statistic is the
  count of \<open>|T_perm| \<ge> |T_obs|\<close> in the null distribution plus 1, over \<open>P + 1\<close>.
\<close>

definition perm_find_spec :: "real list \<Rightarrow> real \<Rightarrow> real" where
  "perm_find_spec arr x =
     (real (length (filter (\<lambda>v. \<bar>v\<bar> \<ge> \<bar>x\<bar>) arr)) + 1) / (real (length arr) + 1)"

text \<open>
  Modelled from the spec: \<^verbatim>\<open>_sig_stars\<close> of \<^verbatim>\<open>pymer4.utils\<close>, which is not part of
  \<^verbatim>\<open>models.py\<close>. Section 4.4: the marker is fixed by thresholds on the p-value.
\<close>

definition sig_stars_spec :: "real \<Rightarrow> string" where
  "sig_stars_spec p =
     (if p < 0.001 then ''***'' else if p < 0.01 then ''**'' else if p < 0.05 then ''*''
      else if p < 0.1 then ''.'' else '''')"

text \<open>
  Modelled from the spec: \<^verbatim>\<open>_welch_ingredients\<close> of \<^verbatim>\<open>pymer4.stats\<close>, which is not part
  of \<^verbatim>\<open>models.py\<close>. Section 4.1 gives the degrees of freedom as
  \<open>(\<Sum>\<^sub>i s\<^sub>i\<^sup>2)\<^sup>2 / \<Sum>\<^sub>i (s\<^sub>i\<^sup>4 / (n\<^sub>i - 1))\<close> with \<open>s\<^sub>i\<^sup>2\<close> the variance estimate of group \<open>i\<close>; the
  code squares the sum of the first ingredients and divides by the sum of the second, so
  a group contributes \<open>s\<^sub>i\<^sup>2\<close> and \<open>s\<^sub>i\<^sup>4 / (n\<^sub>i - 1)\<close>. The variance estimate \<open>s2\<close> is a
  parameter.
\<close>

definition welch_ingredients_spec :: "(real list \<Rightarrow> real) \<Rightarrow> real list \<Rightarrow> real \<times> real" where
  "welch_ingredients_spec s2 g = (s2 g, (s2 g)\<^sup>2 / (real (length g) - 1))"

text \<open>
  Modelled from the spec: \<^verbatim>\<open>_ols\<close> and its robust estimator in \<^verbatim>\<open>pymer4.utils\<close>, which
  are not part of \<^verbatim>\<open>models.py\<close>. Section 4.1: the coefficients are
  \<open>b = (X\<^sup>tX)\<^sup>-\<^sup>1 X\<^sup>t y\<close> and the residuals \<open>r = y - Xb\<close>; the HC0 covariance is
  \<open>(X\<^sup>tX)\<^sup>-\<^sup>1 X\<^sup>t diag(r\<^sup>2) X (X\<^sup>tX)\<^sup>-\<^sup>1\<close>, and HC1 is HC0 scaled by \<open>n / (n - p)\<close>. The standard
  errors are the square roots of the diagonal of the covariance matrix. A matrix is the
  list of its rows; the matrix inverse of the numerical library is the parameter
  \<open>minv\<close>.
\<close>

type_synonym matrix = "real list list"

definition mat_mul :: "matrix \<Rightarrow> matrix \<Rightarrow> matrix" where
  "mat_mul A B = map (\<lambda>row. map (\<lambda>col. sum_list (map (\<lambda>(u, v). u * v) (zip row col))) (transpose B)) A"

definition diag :: "real list \<Rightarrow> matrix" where
  "diag v = map (\<lambda>i. map (\<lambda>j. if i = j then v ! i else 0) [0..<length v]) [0..<length v]"

definition diagonal :: "matrix \<Rightarrow> real list" where
  "diagonal V = concat (map (\<lambda>(i, row). take 1 (drop i row)) (zip [0..<length V] V))"

definition n_columns :: "matrix \<Rightarrow> nat" where
  "n_columns X = (case X of [] \<Rightarrow> 0 | r # rs \<Rightarrow> length r)"

definition bread :: "(matrix \<Rightarrow> matrix) \<Rightarrow> matrix \<Rightarrow> matrix" where
  "bread minv X = minv (mat_mul (transpose X) X)"

definition ols_coefficients :: "(matrix \<Rightarrow> matrix) \<Rightarrow> matrix \<Rightarrow> real list \<Rightarrow> real list" where
  "ols_coefficients minv X y =
     concat (mat_mul (bread minv X) (mat_mul (transpose X) (map (\<lambda>v. [v]) y)))"

definition residuals :: "(matrix \<Rightarrow> matrix) \<Rightarrow> matrix \<Rightarrow> real list \<Rightarrow> real list" where
  "residuals minv X y =
     map (\<lambda>(yi, fi). yi - fi)
       (zip y (concat (mat_mul X (map (\<lambda>v. [v]) (ols_coefficients minv X y)))))"

definition hc0 :: "(matrix \<Rightarrow> matrix) \<Rightarrow> matrix \<Rightarrow> real list \<Rightarrow> matrix" where
  "hc0 minv X y =
     mat_mul (mat_mul (bread minv X)
        (mat_mul (mat_mul (transpose X) (diag (map (\<lambda>e. e\<^sup>2) (residuals minv X y)))) X))
       (bread minv X)"

definition hc1 :: "(matrix \<Rightarrow> matrix) \<Rightarrow> matrix \<Rightarrow> real list \<Rightarrow> matrix" where
  "hc1 minv X y =
     map (map (\<lambda>v. v * (real (length X) / (real (length X) - real (n_columns X))))) (hc0 minv X y)"

definition standard_errors :: "matrix \<Rightarrow> real list" where
  "standard_errors V = map sqrt (diagonal V)"

definition inverse_1x1 :: "matrix \<Rightarrow> matrix" where
  "inverse_1x1 m = (case m of [[a]] \<Rightarrow> [[1 / a]] | _ \<Rightarrow> m)"

section \<open>A sample run\<close>

text \<open>
  A small data set and stand-ins for the collaborators, for evaluating the model on
  concrete calls. The formula is \<^verbatim>\<open>DV ~ 1\<close> and the response is \<open>[16, 12, 4, 4]\<close>, so the
  design matrix is the intercept column, the estimate is the mean 9, the residuals are
  \<open>[7, 3, -5, -5]\<close>, the ordinary standard error is the square root of \<open>108 / 3 / 4\<close>,
  that is 3, the t-statistic is 3, the coefficient of determination is 0, and shuffling
  the response leaves the statistic as it is. The Student-t values are those at 3
  degrees of freedom rounded to three digits (0.971 for the distribution function at 3,
  3.182 for the quantile). The other stand-ins only have the shapes of the real
  collaborators: the standard error does not follow the estimator or the weights, a
  bootstrap resample has mean 6, 9 or 12, a percentile is the minimum or the maximum, and
  the logarithm, \<open>\<pi>\<close> and the rounding are simple rational stand-ins.
\<close>

definition mean :: "real list \<Rightarrow> real" where
  "mean v = sum_list v / real (length v)"

definition sample_var :: "real list \<Rightarrow> real" where
  "sample_var v = sum_list (map (\<lambda>u. (u - mean v)\<^sup>2) v) / (real (length v) - 1)"

definition sample_dmatrices :: "string \<Rightarrow> frame \<Rightarrow> error + (real list \<times> design)" where
  "sample_dmatrices f d =
     (case map_of d (split_tilde_first f) of
        None \<Rightarrow> Inl (KeyError (split_tilde_first f))
      | Some col \<Rightarrow>
          (case series_reals col of
             Inl e \<Rightarrow> Inl e
           | Inr y \<Rightarrow> Inr (y, \<lparr>names = [''Intercept''], rows = map (\<lambda>_. [1]) y\<rparr>)))"

definition sample_percentile :: "real list list \<Rightarrow> real \<Rightarrow> error + real list" where
  "sample_percentile m q =
     (case m of
        [] \<Rightarrow> Inl (IndexError ''index -1 is out of bounds for axis 0 with size 0'')
      | r # rs \<Rightarrow>
          Inr (foldr (\<lambda>u acc. map (\<lambda>(c, d). if q < 50 then min c d else max c d) (zip u acc))
                 rs r))"

definition sample_env :: env where
  "sample_env =
     \<lparr>dmatrices = sample_dmatrices,
      frame_rank = (\<lambda>d. d),
      ols = (\<lambda>x y rb lags cl wts. Inr ([mean y], [3], [mean y / 3], map (\<lambda>v. v - mean y) y)),
      chunk_boot_ols_coefs = (\<lambda>d f wts seed. Inr [6 + 3 * real_of_int (seed mod 3)]),
      chunk_perm_ols = (\<lambda>x y rb lags cl wts seed. Inr [mean y / 3]),
      perm_find = perm_find_spec,
      sig_stars = sig_stars_spec,
      welch_ingredients = welch_ingredients_spec sample_var,
      calc_rsquared = (\<lambda>y res center. 0),
      calc_rsquared_adj = (\<lambda>r n d center. 0),
      t_cdf = (\<lambda>t df. 0.971),
      t_ppf = (\<lambda>q df. if q < 1 / 2 then - 3.182 else 3.182),
      np_var = sample_var,
      np_percentile = sample_percentile,
      np_random_randint = (\<lambda>g hi n. (\<lambda>i. int (g + i), g + n)),
      np_log = (\<lambda>x. x - 1),
      np_pi = 22 / 7,
      np_round = (\<lambda>d r. r)\<rparr>"

definition sample_data :: frame where
  "sample_data =
     [(''DV'', [Num 16, Num 12, Num 4, Num 4]),
      (''Group'', [Str ''a'', Str ''b'', Str ''a'', Str ''b'']),
      (''Site'', [Str ''x'', Str ''y'', Str ''z'', Str ''x'']),
      (''Batch'', [Str ''k'', Str ''k'', Str ''k'', Str ''k''])]"

definition sample_lm :: lm where
  "sample_lm =
     \<lparr>family = ''gaussian'', fitted = False, formula = ''DV~1'', data = sample_data,
      AIC = None, BIC = None, logLike = None, warnings = [], resid = None, fits = None,
      coefs = None, design_matrix = None, ci_type = None, se_type = None, sig_type = None,
      ranked_data = False, estimator = None, rsquared = None, rsquared_adj = None\<rparr>"

definition sample_world :: world where
  "sample_world = \<lparr>self = sample_lm, emitted = [], rng = 0\<rparr>"

text \<open>The defaults of the arguments of \<^verbatim>\<open>Lm.fit\<close>, printing the summary apart.\<close>

definition default_args :: fit_args where
  "default_args =
     \<lparr>robust = RBool False, conf_int = ''standard'', permute = None, rank = False,
      summarize = False, verbose = False, n_boot = 500, n_jobs = 1, n_lags = 1,
      cluster = None, weights = WNone, wls_dof_correction = True\<rparr>"

text \<open>
  Calls on the samples: cluster-robust, with a permutation test, bootstrapped, weighted.
\<close>

definition cluster_args :: fit_args where
  "cluster_args = default_args\<lparr>robust := RStr ''cluster'', cluster := Some ''Site''\<rparr>"

definition cluster_permute_args :: fit_args where
  "cluster_permute_args =
     default_args\<lparr>robust := RStr ''cluster'', cluster := Some ''Site'', permute := Some 3\<rparr>"

definition two_cluster_args :: fit_args where
  "two_cluster_args = default_args\<lparr>robust := RStr ''cluster'', cluster := Some ''Group''\<rparr>"

definition permute_args :: fit_args where
  "permute_args = default_args\<lparr>permute := Some 3, robust := RBool True, n_jobs := 4\<rparr>"

definition boot_args :: fit_args where
  "boot_args = default_args\<lparr>conf_int := ''boot'', n_boot := 3, summarize := True\<rparr>"

definition two_group_args :: fit_args where
  "two_group_args = default_args\<lparr>weights := WName ''Group''\<rparr>"

definition three_group_args :: fit_args where
  "three_group_args = default_args\<lparr>weights := WName ''Site''\<rparr>"

definition weighted_cluster_args :: fit_args where
  "weighted_cluster_args =
     default_args\<lparr>weights := WName ''Site'', robust := RStr ''cluster'',
                   cluster := Some ''Group''\<rparr>"

text \<open>An \<^verbatim>\<open>Lm2\<close> object on the sample data.\<close>

definition sample_lm2 :: lm2 where
  "sample_lm2 =
     \<lparr>family = ''gaussian'', fitted = False, formula = ''DV~1'', data = sample_data,
      AIC = None, BIC = None, logLike = None, warnings = [], resid = None, fits = None,
      coefs = None, design_matrix = None, ci_type = None, se_type = None, sig_type = None,
      ranked_data = False, estimator = None, rsquared = None, rsquared_adj = None,
      group = ''Group'', fixef = None, iscorrs = False\<rparr>"

text \<open>
  A second data set, of six rows, for calls with a weights column, a cluster column and
  a predictor. \<^verbatim>\<open>Group\<close> has two groups of three rows and \<^verbatim>\<open>Site\<close> three groups of two
  rows, and the response varies within every group, so that the inverse group variances
  of line 1472 are positive numbers (for \<^verbatim>\<open>Site\<close> they are 1/2, 1/8 and 1/8). Under the
  formula \<^verbatim>\<open>DV ~ IV\<close> the design matrix has the two columns \<^verbatim>\<open>Intercept\<close> and \<^verbatim>\<open>IV\<close>.
\<close>

definition grouped_data :: frame where
  "grouped_data =
     [(''DV'', [Num 1, Num 3, Num 2, Num 6, Num 4, Num 8]),
      (''IV'', [Num 1, Num 2, Num 3, Num 4, Num 5, Num 6]),
      (''Group'', [Str ''a'', Str ''b'', Str ''a'', Str ''b'', Str ''a'', Str ''b'']),
      (''Site'', [Str ''x'', Str ''x'', Str ''y'', Str ''y'', Str ''z'', Str ''z''])]"

definition grouped_lm :: lm where
  "grouped_lm = sample_lm\<lparr>data := grouped_data\<rparr>"

definition grouped_world :: world where
  "grouped_world = \<lparr>self = grouped_lm, emitted = [], rng = 0\<rparr>"

definition slope_world :: world where
  "slope_world = \<lparr>self = grouped_lm\<lparr>formula := ''DV~IV''\<rparr>, emitted = [], rng = 0\<rparr>"

text \<open>
  What patsy makes of a formula with one numeric predictor: the response, and a design
  with the intercept and the predictor.
\<close>

definition slope_dmatrices :: "string \<Rightarrow> frame \<Rightarrow> error + (real list \<times> design)" where
  "slope_dmatrices f d =
     (let rhs = drop 1 (dropWhile (\<lambda>c. c \<noteq> CHR ''~'') f) in
      case map_of d (split_tilde_first f) of
        None \<Rightarrow> Inl (KeyError (split_tilde_first f))
      | Some col \<Rightarrow>
          (case series_reals col of
             Inl e \<Rightarrow> Inl e
           | Inr y \<Rightarrow>
               (case map_of d rhs of
                  None \<Rightarrow> Inl (KeyError rhs)
                | Some pcol \<Rightarrow>
                    (case series_reals pcol of
                       Inl e \<Rightarrow> Inl e
                     | Inr xs \<Rightarrow>
                         Inr (y, \<lparr>names = [''Intercept'', rhs], rows = map (\<lambda>u. [1, u]) xs\<rparr>)))))"

text \<open>
  The sample environment with the numbers of a fit left open: the design matrices are
  built by \<open>dm\<close>, \<^verbatim>\<open>_ols\<close> returns the estimates, standard errors, t-statistics and
  residuals \<open>outcome\<close>, and the distribution and quantile functions of Student's t are
  \<open>cdf\<close> and \<open>ppf\<close>. What holds for all of them does not rest on the stand-ins above.
\<close>

definition given_env ::
  "(string \<Rightarrow> frame \<Rightarrow> error + (real list \<times> design))
     \<Rightarrow> real list \<times> real list \<times> real list \<times> real list
     \<Rightarrow> (real \<Rightarrow> real \<Rightarrow> real) \<Rightarrow> (real \<Rightarrow> real \<Rightarrow> real) \<Rightarrow> env" where
  "given_env dm outcome cdf ppf =
     sample_env\<lparr>dmatrices := dm, ols := (\<lambda>x y rb lags cl wts. Inr outcome),
                 t_cdf := cdf, t_ppf := ppf\<rparr>"

section \<open>Effects of a call, as a relation between worlds\<close>

text \<open>
  \<open>only_appends S W w w'\<close>: from \<open>w\<close> to \<open>w'\<close> the effects grew by events of \<open>S\<close> only and
  the model's warnings by messages of \<open>W\<close> only. \<open>fit_events a\<close> are the events a call
  with arguments \<open>a\<close> can add after the check of the permutation count.
\<close>

definition only_appends :: "event set \<Rightarrow> string set \<Rightarrow> world \<Rightarrow> world \<Rightarrow> bool" where
  "only_appends S W w w' \<longleftrightarrow>
     (\<exists>evs. emitted w' = emitted w @ evs \<and> set evs \<subseteq> S) \<and>
     (\<exists>ws. warnings (self w') = warnings (self w) @ ws \<and> set ws \<subseteq> W)"

definition fit_events :: "fit_args \<Rightarrow> event set" where
  "fit_events a =
     {Warning welch_msg, Parallel ''_chunk_boot_ols_coefs'' (n_jobs a) (nat (n_boot a))} \<union>
     {e. \<exists>pm. permute a = Some pm \<and> pm \<noteq> 0 \<and>
           e = Parallel ''_chunk_perm_ols'' (perm_n_jobs (robust a) (n_jobs a)) (nat pm)}"

text \<open>
  \<open>unlogged w\<close> is the world \<open>w\<close> with both logs emptied; two outcomes \<open>agree\<close> when they
  are the same apart from the logs.
\<close>

definition unlogged :: "world \<Rightarrow> world" where
  "unlogged w = w\<lparr>emitted := [], self := (self w)\<lparr>warnings := []\<rparr>\<rparr>"

definition agree :: "world \<times> 'r \<Rightarrow> world \<times> 'r \<Rightarrow> bool" where
  "agree p q \<longleftrightarrow> unlogged (fst p) = unlogged (fst q) \<and> snd p = snd q"

section \<open>Lemmas about the stages of \<^verbatim>\<open>Lm.fit\<close>\<close>

declare str_nat.simps [simp del]

lemmas case_congs = if_cong prod.case_cong sum.case_cong option.case_cong cluster_val.case_cong

lemma warn_proj [simp]:
  "self (warn m w) = (self w)\<lparr>warnings := warnings (self w) @ [m]\<rparr>"
  "emitted (warn m w) = emitted w @ [Warning m]"
  "rng (warn m w) = rng w"
  by (simp_all add: warn_def)

lemma dispatch_proj [simp]:
  "self (dispatch f j n w) = self w"
  "emitted (dispatch f j n w) = emitted w @ [Parallel f j n]"
  "rng (dispatch f j n w) = rng w"
  by (simp_all add: dispatch_def)

lemma set_se_type_proj [simp]:
  "self (set_se_type s w) = (self w)\<lparr>se_type := Some s\<rparr>"
  "emitted (set_se_type s w) = emitted w"
  "rng (set_se_type s w) = rng w"
  by (simp_all add: set_se_type_def)

lemma set_estimator_proj [simp]:
  "self (set_estimator wt w) = (self w)\<lparr>estimator := Some (if wt = WNone then ''OLS'' else ''WLS'')\<rparr>"
  "emitted (set_estimator wt w) = emitted w"
  "rng (set_estimator wt w) = rng w"
  by (simp_all add: set_estimator_def)

lemma set_labels_proj [simp]:
  "data (self (set_labels a w)) = data (self w)"
  "formula (self (set_labels a w)) = formula (self w)"
  "warnings (self (set_labels a w)) = warnings (self w)"
  "emitted (set_labels a w) = emitted w"
  "rng (set_labels a w) = rng w"
  by (simp_all add: set_labels_def)

lemma check_permute_proj [simp]:
  "data (self (check_permute pm w)) = data (self w)"
  "formula (self (check_permute pm w)) = formula (self w)"
  "rng (check_permute pm w) = rng w"
  by (simp_all add: check_permute_def split: option.splits)

lemma select_robust_world:
  "select_robust rb cl w = (w1, r) \<Longrightarrow> \<exists>s. w1 = set_se_type s w"
  by (auto simp: select_robust_def Let_def split: if_splits option.splits)

lemma select_robust_truthy:
  "select_robust rb cl w = (w1, Inr (rb', cl')) \<Longrightarrow> truthy_robust rb' = truthy_robust rb"
  by (auto simp: select_robust_def Let_def split: if_splits option.splits robust_arg.splits)

lemma select_robust_cluster:
  assumes "select_robust rb (Some c) w = (w1, Inr (rb', cl'))" "truthy_robust rb" "c \<noteq> []"
  shows "\<exists>col. map_of (data (self w)) c = Some col \<and> cl' = CSeries col"
  using assms by (auto simp: select_robust_def Let_def split: if_splits option.splits)

lemma resolve_df_world:
  "resolve_df E a cl x wg w = (w', r) \<Longrightarrow> w' = w \<or> w' = warn welch_msg w"
  by (auto simp: resolve_df_def split: cluster_val.splits option.splits if_splits)

lemma draw_seeds_world:
  "draw_seeds E n w = (w', r) \<Longrightarrow> self w' = self w \<and> emitted w' = emitted w"
  by (auto simp: draw_seeds_def split: if_splits)

lemma draw_seeds_length:
  "draw_seeds E n w = (w', Inr seeds) \<Longrightarrow> length seeds = nat n \<and> 0 \<le> n"
  by (auto simp: draw_seeds_def split: if_splits)

lemma bootstrap_ci_world:
  assumes "bootstrap_ci E a w = (w', r)"
  shows "self w' = self w \<and>
         (emitted w' = emitted w \<or>
          emitted w' = emitted w @ [Parallel ''_chunk_boot_ols_coefs'' (n_jobs a) (nat (n_boot a))])"
  using assms
  by (auto simp: bootstrap_ci_def Let_def split: prod.splits sum.splits
      dest: draw_seeds_world draw_seeds_length)

lemma confidence_intervals_world:
  assumes "confidence_intervals E a b se dfs w = (w', r)"
  shows "self w' = self w \<and>
         (emitted w' = emitted w \<or>
          emitted w' = emitted w @ [Parallel ''_chunk_boot_ols_coefs'' (n_jobs a) (nat (n_boot a))])"
  using assms bootstrap_ci_world[of E a w w' r]
  by (auto simp: confidence_intervals_def split: if_splits)

lemma permutation_test_world:
  assumes "permutation_test E a pm rb cl x y t w = (w', r)"
  shows "self w' = self w \<and>
         (emitted w' = emitted w \<or>
          emitted w' = emitted w @ [Parallel ''_chunk_perm_ols'' (perm_n_jobs rb (n_jobs a)) (nat pm)])"
  using assms
  by (auto simp: permutation_test_def Let_def split: prod.splits sum.splits
      dest: draw_seeds_world draw_seeds_length)

lemma significance_world:
  assumes "significance E a rb cl x y t df w = (w', r)"
  shows "self w' = self w \<and>
         (emitted w' = emitted w \<or>
          (\<exists>pm. permute a = Some pm \<and> pm \<noteq> 0 \<and>
            emitted w' = emitted w @ [Parallel ''_chunk_perm_ols'' (perm_n_jobs rb (n_jobs a)) (nat pm)]))"
  using assms
  by (auto simp: significance_def split: option.splits if_splits dest: permutation_test_world)

lemma store_results_Inr:
  assumes "store_results E a x y res results w = (w', Inr r)"
  shows "length y = length res \<and>
         w' = w\<lparr>self := fit_statistics E x y res
                 (set_column ''residuals'' (map Num res)
                   (set_column ''fits'' (map Num (map (\<lambda>(yi, ri). yi - ri) (zip y res)))
                     ((self w)\<lparr>coefs := Some results, fitted := True, resid := Some res,
                               fits := Some (map (\<lambda>(yi, ri). yi - ri) (zip y res))\<rparr>)))\<rparr>"
  using assms
  by (auto simp: store_results_def Let_def split: if_splits sum.splits)

lemma store_results_world:
  assumes "store_results E a x y res results w = (w', r)"
  shows "warnings (self w') = warnings (self w) \<and> emitted w' = emitted w"
  using assms
  by (auto simp: store_results_def Let_def fit_statistics_def set_column_def split: if_splits sum.splits)

lemma fit_InrE:
  assumes "fit E a w = (w', Inr r)"
  obtains w1 rb cl weight_vals wg y x b se t res w4 w5 df where
    "select_robust (robust a) (cluster a) (check_permute (permute a) w) = (w1, Inr (rb, cl))"
    "handle_weights E (weights a) (self (set_labels a w1)) = Inr (weight_vals, wg)"
    "dmatrices E (formula (self w))
       (if rank a then frame_rank E (data (self w)) else data (self w)) = Inr (y, x)"
    "ols E x y rb (n_lags a) cl weight_vals = Inr (b, se, t, res)"
    "resolve_df E a cl x wg w4 = (w5, Inr df)"
    "data (self w4) = data (self w)"
    "design_matrix (self w4) = Some x"
    "warnings (self w4) = warnings (self (check_permute (permute a) w))"
    "emitted w4 = emitted (check_permute (permute a) w)"
    "inference E a rb cl x y b se t res df w5 = (w', Inr r)"
    "rng w4 = rng w"
proof -
  obtain w1 sel where s: "select_robust (robust a) (cluster a) (check_permute (permute a) w) = (w1, sel)"
    by (cases "select_robust (robust a) (cluster a) (check_permute (permute a) w)")
  from select_robust_world[OF s] obtain lbl where w1: "w1 = set_se_type lbl (check_permute (permute a) w)"
    by blast
  have f: "formula (self w1) = formula (self w)" "data (self w1) = data (self w)"
    "warnings (self w1) = warnings (self (check_permute (permute a) w))"
    "emitted w1 = emitted (check_permute (permute a) w)" "rng w1 = rng w"
    by (simp_all add: w1)
  from assms s obtain rb cl where sel: "sel = Inr (rb, cl)"
    by (cases sel) (auto simp: fit_def fit_after_check_def)
  from assms s sel obtain weight_vals wg where
    hw: "handle_weights E (weights a) (self (set_labels a w1)) = Inr (weight_vals, wg)"
    by (cases "handle_weights E (weights a) (self (set_labels a w1))") (auto simp: fit_def fit_after_check_def Let_def)
  let ?ddat = "if rank a then frame_rank E (data (self w)) else data (self w)"
  have dd: "(if rank a then frame_rank E (data (self (set_labels a w1)))
             else data (self (set_labels a w1))) = ?ddat"
    by (simp add: f)
  from assms s sel hw obtain y x where dm: "dmatrices E (formula (self w)) ?ddat = Inr (y, x)"
    by (cases "dmatrices E (formula (self w)) ?ddat") (auto simp: fit_def fit_after_check_def Let_def f dd)
  let ?w3 = "set_estimator (weights a) (set_labels a w1)"
  let ?w4 = "?w3\<lparr>self := (self ?w3)\<lparr>design_matrix := Some x\<rparr>\<rparr>"
  from assms s sel hw dm obtain b se t res where
    o: "ols E x y rb (n_lags a) cl weight_vals = Inr (b, se, t, res)"
    by (cases "ols E x y rb (n_lags a) cl weight_vals") (auto simp: fit_def fit_after_check_def Let_def f dd)
  from assms s sel hw dm o obtain w5 df where
    rd: "resolve_df E a cl x wg ?w4 = (w5, Inr df)"
    by (cases "resolve_df E a cl x wg ?w4"; cases "snd (resolve_df E a cl x wg ?w4)")
       (auto simp: fit_def fit_after_check_def Let_def f dd)
  from assms s sel hw dm o rd have
    inf: "inference E a rb cl x y b se t res df w5 = (w', Inr r)"
    by (auto simp: fit_def fit_after_check_def Let_def f dd)
  show thesis
    by (rule that[OF s[unfolded sel] hw dm o rd _ _ _ _ inf]) (simp_all add: f)
qed

lemma inference_InrE:
  assumes "inference E a rb cl x y b se t res df w = (w', Inr r)"
  obtains w1 ci_l ci_u w2 p dfs sig results where
    "confidence_intervals E a b se (replicate (length t) df) w = (w1, Inr (ci_l, ci_u))"
    "significance E a rb cl x y t df w1 = (w2, Inr (p, dfs, sig))"
    "make_results a x b ci_l ci_u se dfs t p sig = Inr results"
    "store_results E a x y res results w2 = (w', Inr r)"
  using assms by (auto simp: inference_def split: prod.splits sum.splits)

lemmas fit_defs = fit_def fit_after_check_def check_permute_def select_robust_def set_se_type_def set_labels_def
  handle_weights_def set_estimator_def resolve_df_def welch_df_def inference_def
  confidence_intervals_def bootstrap_ci_def parametric_ci_def significance_def
  permutation_test_def draw_seeds_def dispatch_def array_shape1_def column_of_def
  perm_p_values_def perm_n_jobs_def parametric_p_def make_results_def rename_column_def
  store_results_def set_column_def nrows_def fit_statistics_def summary_def warn_def
  group_values_def nunique_def shape0_def shape1_def split_tilde_first_def str_int_def
  int32_max_def negative_size_def shape_mismatch_def length_mismatch_def

lemmas sample_defs = sample_env_def sample_world_def sample_lm_def sample_data_def
  default_args_def sample_dmatrices_def sample_percentile_def mean_def sample_var_def
  perm_find_spec_def sig_stars_spec_def welch_ingredients_spec_def

lemmas upt_small = upt_rec[of 0] upt_rec[of 1] upt_rec[of 2] upt_rec[of "Suc 0"]
  upt_rec[of "Suc (Suc 0)"]

lemma final_model_proj [simp]:
  "data (fit_statistics E x y res m) = data m"
  "coefs (fit_statistics E x y res m) = coefs m"
  "resid (fit_statistics E x y res m) = resid m"
  "fits (fit_statistics E x y res m) = fits m"
  "design_matrix (fit_statistics E x y res m) = design_matrix m"
  "warnings (fit_statistics E x y res m) = warnings m"
  by (simp_all add: fit_statistics_def Let_def)

lemma set_column_proj [simp]:
  "data (set_column c v m) = AList.update c v (data m)"
  "coefs (set_column c v m) = coefs m"
  "resid (set_column c v m) = resid m"
  "fits (set_column c v m) = fits m"
  "design_matrix (set_column c v m) = design_matrix m"
  "warnings (set_column c v m) = warnings m"
  by (simp_all add: set_column_def)

lemma resolve_df_self:
  "resolve_df E a cl x wg w = (w', r) \<Longrightarrow>
     data (self w') = data (self w) \<and> design_matrix (self w') = design_matrix (self w)"
  by (auto dest!: resolve_df_world)

lemma make_results_Inr:
  assumes "make_results a x b ci_l ci_u se df t p sig = Inr results"
  shows "index results = names x" "length t = length (names x)" "length df = length (names x)"
    "length p = length (names x)" "length sig = length (names x)"
    "length ci_l = length (names x)" "length ci_u = length (names x)"
    "\<not> truthy_int (permute a) \<Longrightarrow> map_of (columns results) ''DF'' = Some (map Num df)"
    "truthy_int (permute a) \<Longrightarrow> map_of (columns results) ''Num_perm'' = Some (map Num df)"
    "truthy_int (permute a) \<Longrightarrow> map_of (columns results) ''Perm-P-val'' = Some (map Num p)"
    "map_of (columns results) ''2.5_ci'' = Some (map Num ci_l)"
    "map_of (columns results) ''97.5_ci'' = Some (map Num ci_u)"
    "map_of (columns results) ''Sig'' = Some (map Str sig)"
  using assms
  by (auto simp: make_results_def Let_def rename_column_def split: if_splits)

lemma significance_parametric:
  assumes "significance E a rb cl x y t df w = (w', Inr (p, dfs, sig))" "\<not> truthy_int (permute a)"
  shows "dfs = replicate (length t) df" "p = parametric_p E t df" "sig = map (sig_stars E) p"
  using assms by (auto simp: significance_def split: option.splits if_splits)

lemma select_robust_True:
  "select_robust (RBool True) cl w = select_robust (RStr ''hc1'') cl w"
  by (simp add: select_robust_def)

lemma robust_irrelevant_stages:
  "set_labels (a\<lparr>robust := r\<rparr>) w = set_labels a w"
  "resolve_df E (a\<lparr>robust := r\<rparr>) cl x wg w = resolve_df E a cl x wg w"
  "confidence_intervals E (a\<lparr>robust := r\<rparr>) b se dfs w = confidence_intervals E a b se dfs w"
  "permutation_test E (a\<lparr>robust := r\<rparr>) pm rb cl x y t w = permutation_test E a pm rb cl x y t w"
  "significance E (a\<lparr>robust := r\<rparr>) rb cl x y t df' w = significance E a rb cl x y t df' w"
  "make_results (a\<lparr>robust := r\<rparr>) x b ci_l ci_u se df t p sig = make_results a x b ci_l ci_u se df t p sig"
  "store_results E (a\<lparr>robust := r\<rparr>) x y res results w = store_results E a x y res results w"
  by (simp_all add: set_labels_def resolve_df_def confidence_intervals_def
      bootstrap_ci_def permutation_test_def significance_def make_results_def store_results_def
      cong: case_congs)

lemma robust_irrelevant_inference:
  "inference E (a\<lparr>robust := r\<rparr>) rb cl x y b se t res df w = inference E a rb cl x y b se t res df w"
  by (simp add: inference_def robust_irrelevant_stages cong: case_congs)

lemma collect_length: "collect rs = Inr vs \<Longrightarrow> length vs = length rs"
  by (induction rs arbitrary: vs rule: collect.induct) (auto split: sum.splits)

lemma make_results_tstat:
  assumes "make_results a x b ci_l ci_u se df t p sig = Inr results"
  shows "map_of (columns results) ''T-stat'' = Some (map Num t)"
    "\<not> truthy_int (permute a) \<Longrightarrow> map_of (columns results) ''P-val'' = Some (map Num p)"
    "map fst (columns results) =
       (if truthy_int (permute a)
        then [''Estimate'', ''2.5_ci'', ''97.5_ci'', ''SE'', ''Num_perm'', ''T-stat'', ''Perm-P-val'', ''Sig'']
        else [''Estimate'', ''2.5_ci'', ''97.5_ci'', ''SE'', ''DF'', ''T-stat'', ''P-val'', ''Sig''])"
  using assms
  by (auto simp: make_results_def Let_def rename_column_def split: if_splits)

lemma permutation_test_Inr_ex:
  assumes "permutation_test E a pm rb cl x y t w = (w', Inr (p, dfs, sig))"
  shows "\<exists>seeds perm_ts ncols.
    length seeds = nat pm \<and> 0 \<le> pm \<and>
    collect (map (chunk_perm_ols E x y rb (n_lags a) cl (weights a)) seeds) = Inr perm_ts \<and>
    array_shape1 perm_ts = Inr ncols \<and>
    p = perm_p_values E perm_ts ncols t \<and>
    dfs = replicate (length p) (real_of_int pm) \<and>
    sig = map (sig_stars E) p \<and>
    emitted w' = emitted w @ [Parallel ''_chunk_perm_ols'' (perm_n_jobs rb (n_jobs a)) (nat pm)] \<and>
    self w' = self w"
proof -
  obtain w1 sd where ds: "draw_seeds E pm w = (w1, sd)"
    by (cases "draw_seeds E pm w")
  from assms ds obtain seeds where sd: "sd = Inr seeds"
    by (cases sd) (auto simp: permutation_test_def)
  note len = draw_seeds_length[OF ds[unfolded sd]] and wd = draw_seeds_world[OF ds]
  from assms ds sd obtain perm_ts where
    co: "collect (map (chunk_perm_ols E x y rb (n_lags a) cl (weights a)) seeds) = Inr perm_ts"
    by (cases "collect (map (chunk_perm_ols E x y rb (n_lags a) cl (weights a)) seeds)")
       (auto simp: permutation_test_def Let_def)
  from assms ds sd co obtain ncols where sh: "array_shape1 perm_ts = Inr ncols"
    by (cases "array_shape1 perm_ts") (auto simp: permutation_test_def Let_def)
  from assms ds sd co sh have
    "w' = dispatch ''_chunk_perm_ols'' (perm_n_jobs rb (n_jobs a)) (length seeds) w1"
    "p = perm_p_values E perm_ts ncols t"
    "dfs = replicate (length p) (real_of_int pm)"
    "sig = map (sig_stars E) p"
    by (auto simp: permutation_test_def Let_def)
  with len wd co sh show ?thesis
    by (intro exI[of _ seeds] exI[of _ perm_ts] exI[of _ ncols]) simp
qed

lemma permutation_test_InrE:
  assumes "permutation_test E a pm rb cl x y t w = (w', Inr (p, dfs, sig))"
  obtains seeds perm_ts ncols where
    "length seeds = nat pm" "0 \<le> pm"
    "collect (map (chunk_perm_ols E x y rb (n_lags a) cl (weights a)) seeds) = Inr perm_ts"
    "array_shape1 perm_ts = Inr ncols"
    "p = perm_p_values E perm_ts ncols t"
    "dfs = replicate (length p) (real_of_int pm)"
    "sig = map (sig_stars E) p"
    "emitted w' = emitted w @ [Parallel ''_chunk_perm_ols'' (perm_n_jobs rb (n_jobs a)) (nat pm)]"
  using permutation_test_Inr_ex[OF assms] by blast

lemma significance_permute:
  assumes "significance E a rb cl x y t df w = (w', Inr (p, dfs, sig))"
    "permute a = Some pm" "pm \<noteq> 0"
  shows "permutation_test E a pm rb cl x y t w = (w', Inr (p, dfs, sig))"
  using assms by (simp add: significance_def)

lemma perm_find_spec_bounds: "0 < perm_find_spec arr v \<and> perm_find_spec arr v \<le> 1"
proof -
  have "length (filter (\<lambda>u. \<bar>u\<bar> \<ge> \<bar>v\<bar>) arr) \<le> length arr"
    by (rule length_filter_le)
  then have "real (length (filter (\<lambda>u. \<bar>u\<bar> \<ge> \<bar>v\<bar>) arr)) + 1 \<le> real (length arr) + 1"
    by simp
  moreover have "0 < real (length arr) + 1" "0 < real (length (filter (\<lambda>u. \<bar>u\<bar> \<ge> \<bar>v\<bar>) arr)) + 1"
    by simp_all
  ultimately show ?thesis
    unfolding perm_find_spec_def by (simp add: divide_le_eq del: length_filter_le)
qed

lemma perm_p_values_nth:
  assumes "i < length (perm_p_values E perm_ts ncols t)"
  shows "perm_p_values E perm_ts ncols t ! i = perm_find E (column_of perm_ts i) (t ! i)"
  using assms by (simp add: perm_p_values_def)

lemma resolve_df_rng:
  "resolve_df E a cl x wg w = (w', r) \<Longrightarrow> rng w' = rng w"
  by (auto dest!: resolve_df_world)

lemma confidence_intervals_rng:
  assumes "confidence_intervals E a b se dfs w = (w', Inr r)"
  shows "rng w' = (if conf_int a = ''boot''
                   then snd (np_random_randint E (rng w) int32_max (nat (n_boot a)))
                   else rng w)"
  using assms
  by (auto simp: confidence_intervals_def bootstrap_ci_def draw_seeds_def Let_def
      split: if_splits sum.splits prod.splits)

lemma permutation_test_seeds:
  assumes "permutation_test E a pm rb cl x y t w = (w', Inr (p, dfs, sig))"
  shows "\<exists>perm_ts ncols.
    collect (map (chunk_perm_ols E x y rb (n_lags a) cl (weights a))
               (map (fst (np_random_randint E (rng w) int32_max (nat pm))) [0..<nat pm])) = Inr perm_ts \<and>
    array_shape1 perm_ts = Inr ncols \<and>
    p = perm_p_values E perm_ts ncols t"
  using assms
  by (auto simp: permutation_test_def draw_seeds_def Let_def split: if_splits sum.splits prod.splits)

lemma array_shape1_rows: "array_shape1 m = Inr n \<Longrightarrow> \<forall>row\<in>set m. length row = n"
  by (auto simp: array_shape1_def list_all_iff split: list.splits if_splits)

lemma perm_p_values_length: "length (perm_p_values E perm_ts ncols t) = min ncols (length t)"
  by (simp add: perm_p_values_def)

lemma handle_weights_reads:
  "data m' = data m \<Longrightarrow> formula m' = formula m \<Longrightarrow> handle_weights E wt m' = handle_weights E wt m"
  by (simp add: handle_weights_def cong: weights_arg.case_cong option.case_cong)

lemma select_robust_selected:
  assumes "select_robust rb0 c0 w = (w1, Inr (rb, cl))"
  shows "rb = (if truthy_robust rb0 then RStr (case rb0 of RBool _ \<Rightarrow> ''hc1'' | RStr s \<Rightarrow> s) else rb0)"
    and "(case c0 of None \<Rightarrow> cl = CNone
          | Some c \<Rightarrow> (\<exists>col. map_of (data (self w)) c = Some col \<and> cl = CSeries col) \<or> cl = CName c)"
  using assms
  by (auto simp: select_robust_def Let_def split: if_splits option.splits)

lemma resolve_df_CName: "resolve_df E a (CName c) x wg w \<noteq> (w', Inr df)"
  by (simp add: resolve_df_def)


lemma only_appends_same:
  "emitted w' = emitted w \<Longrightarrow> warnings (self w') = warnings (self w) \<Longrightarrow> only_appends S W w w'"
  by (simp add: only_appends_def)

lemma only_appends_trans:
  assumes "only_appends S W w w'" "only_appends S W w' w''"
  shows "only_appends S W w w''"
proof -
  from assms obtain e1 e2 s1 s2 where
    "emitted w' = emitted w @ e1" "set e1 \<subseteq> S" "emitted w'' = emitted w' @ e2" "set e2 \<subseteq> S"
    "warnings (self w') = warnings (self w) @ s1" "set s1 \<subseteq> W"
    "warnings (self w'') = warnings (self w') @ s2" "set s2 \<subseteq> W"
    unfolding only_appends_def by blast
  then have "emitted w'' = emitted w @ (e1 @ e2) \<and> set (e1 @ e2) \<subseteq> S"
    "warnings (self w'') = warnings (self w) @ (s1 @ s2) \<and> set (s1 @ s2) \<subseteq> W"
    by simp_all
  then show ?thesis
    unfolding only_appends_def by blast
qed

lemma resolve_df_appends:
  assumes "resolve_df E a cl x wg w = (w', r)" "Warning welch_msg \<in> S" "welch_msg \<in> W"
  shows "only_appends S W w w'"
  using resolve_df_world[OF assms(1)] assms(2,3)
  by (auto simp: only_appends_def)

lemma confidence_intervals_appends:
  assumes "confidence_intervals E a b se dfs w = (w', r)"
    "Parallel ''_chunk_boot_ols_coefs'' (n_jobs a) (nat (n_boot a)) \<in> S"
  shows "only_appends S W w w'"
  using confidence_intervals_world[OF assms(1)] assms(2)
  by (auto simp: only_appends_def)

lemma significance_appends:
  assumes "significance E a rb cl x y t df w = (w', r)"
    "\<And>pm. permute a = Some pm \<Longrightarrow> pm \<noteq> 0 \<Longrightarrow>
        Parallel ''_chunk_perm_ols'' (perm_n_jobs rb (n_jobs a)) (nat pm) \<in> S"
  shows "only_appends S W w w'"
  using significance_world[OF assms(1)] assms(2)
  by (auto simp: only_appends_def)

lemma store_results_appends:
  assumes "store_results E a x y res results w = (w', r)"
  shows "only_appends S W w w'"
  using store_results_world[OF assms] by (simp add: only_appends_same)

lemma perm_n_jobs_cong: "truthy_robust rb' = truthy_robust rb \<Longrightarrow> perm_n_jobs rb' j = perm_n_jobs rb j"
  by (simp add: perm_n_jobs_def)

lemma inference_appends:
  assumes "inference E a rb cl x y b se t res df w = (w', r)"
    and "truthy_robust rb = truthy_robust (robust a)"
  shows "only_appends (fit_events a) {welch_msg} w w'"
proof -
  obtain w1 r1 where ci: "confidence_intervals E a b se (replicate (length t) df) w = (w1, r1)"
    by (cases "confidence_intervals E a b se (replicate (length t) df) w")
  have a1: "only_appends (fit_events a) {welch_msg} w w1"
    by (rule confidence_intervals_appends[OF ci]) (simp add: fit_events_def)
  show ?thesis
  proof (cases r1)
    case (Inl e)
    with assms(1) ci a1 show ?thesis by (simp add: inference_def)
  next
    case (Inr cis)
    obtain ci_l ci_u where cis: "cis = (ci_l, ci_u)" by (cases cis)
    obtain w2 r2 where sg: "significance E a rb cl x y t df w1 = (w2, r2)"
      by (cases "significance E a rb cl x y t df w1")
    have a2: "only_appends (fit_events a) {welch_msg} w1 w2"
      by (rule significance_appends[OF sg])
         (simp add: fit_events_def perm_n_jobs_cong[OF assms(2)])
    note a12 = only_appends_trans[OF a1 a2]
    show ?thesis
    proof (cases r2)
      case (Inl e)
      with assms(1) ci Inr cis sg a12 show ?thesis by (simp add: inference_def)
    next
      case r2: (Inr s)
      obtain p dfs sig where s: "s = (p, dfs, sig)" by (cases s)
      show ?thesis
      proof (cases "make_results a x b ci_l ci_u se dfs t p sig")
        case (Inl e)
        with assms(1) ci Inr cis sg r2 s a12 show ?thesis by (simp add: inference_def)
      next
        case mr: (Inr results)
        with assms(1) ci Inr cis sg r2 s have "store_results E a x y res results w2 = (w', r)"
          by (simp add: inference_def)
        from only_appends_trans[OF a12 store_results_appends[OF this]] show ?thesis .
      qed
    qed
  qed
qed

lemma fit_appends:
  "only_appends (fit_events a) {welch_msg} (check_permute (permute a) w) (fst (fit E a w))"
proof -
  let ?w0 = "check_permute (permute a) w"
  let ?S = "fit_events a" and ?W = "{welch_msg}"
  obtain w1 sel where s: "select_robust (robust a) (cluster a) ?w0 = (w1, sel)"
    by (cases "select_robust (robust a) (cluster a) ?w0")
  from select_robust_world[OF s] obtain lbl where w1: "w1 = set_se_type lbl ?w0"
    by blast
  have a1: "only_appends ?S ?W ?w0 w1"
    by (rule only_appends_same) (simp_all add: w1)
  show ?thesis
  proof (cases sel)
    case (Inl e)
    with s a1 show ?thesis by (simp add: fit_def fit_after_check_def)
  next
    case (Inr rc)
    obtain rb cl where rc: "rc = (rb, cl)" by (cases rc)
    have tr: "truthy_robust rb = truthy_robust (robust a)"
      using select_robust_truthy s Inr rc by blast
    let ?w2 = "set_labels a w1"
    have a2: "only_appends ?S ?W ?w0 ?w2"
      by (rule only_appends_same) (simp_all add: w1)
    show ?thesis
    proof (cases "handle_weights E (weights a) (self ?w2)")
      case (Inl e)
      with s Inr rc a2 show ?thesis by (simp add: fit_def fit_after_check_def Let_def)
    next
      case hw: (Inr wv)
      obtain weight_vals wg where wv: "wv = (weight_vals, wg)" by (cases wv)
      let ?w3 = "set_estimator (weights a) ?w2"
      let ?ddat = "if rank a then frame_rank E (data (self ?w2)) else data (self ?w2)"
      have a3: "only_appends ?S ?W ?w0 ?w3"
        by (rule only_appends_same) (simp_all add: w1)
      show ?thesis
      proof (cases "dmatrices E (formula (self ?w3)) ?ddat")
        case (Inl e)
        with s Inr rc hw wv a3 show ?thesis by (simp add: fit_def fit_after_check_def Let_def)
      next
        case dm: (Inr yx)
        obtain y x where yx: "yx = (y, x)" by (cases yx)
        let ?w4 = "?w3\<lparr>self := (self ?w3)\<lparr>design_matrix := Some x\<rparr>\<rparr>"
        have a4: "only_appends ?S ?W ?w0 ?w4"
          by (rule only_appends_same) (simp_all add: w1)
        show ?thesis
        proof (cases "ols E x y rb (n_lags a) cl weight_vals")
          case (Inl e)
          with s Inr rc hw wv dm yx a4 show ?thesis by (simp add: fit_def fit_after_check_def Let_def)
        next
          case o: (Inr est)
          obtain b se t res where est: "est = (b, se, t, res)" by (cases est)
          obtain w5 r5 where rd: "resolve_df E a cl x wg ?w4 = (w5, r5)"
            by (cases "resolve_df E a cl x wg ?w4")
          have a5: "only_appends ?S ?W ?w0 w5"
            by (rule only_appends_trans[OF a4 resolve_df_appends[OF rd]])
               (simp_all add: fit_events_def)
          show ?thesis
          proof (cases r5)
            case (Inl e)
            with s Inr rc hw wv dm yx o est rd a5 show ?thesis by (simp add: fit_def fit_after_check_def Let_def)
          next
            case df: (Inr df)
            obtain w' r where inf: "inference E a rb cl x y b se t res df w5 = (w', r)"
              by (cases "inference E a rb cl x y b se t res df w5")
            from only_appends_trans[OF a5 inference_appends[OF inf tr]]
            have "only_appends ?S ?W ?w0 w'" .
            with s Inr rc hw wv dm yx o est rd df inf show ?thesis
              by (simp add: fit_def fit_after_check_def Let_def)
          qed
        qed
      qed
    qed
  qed
qed


lemma check_permute_emitted:
  "\<exists>evs. emitted (check_permute pm w) = emitted w @ evs \<and> set evs \<subseteq> {Warning low_permute_msg}"
  by (auto simp: check_permute_def split: option.splits)

lemma fit_Inr_permute:
  assumes "fit E a w = (w', Inr r)" "permute a = Some pm" "pm \<noteq> 0"
  shows "\<exists>evs tbl.
           emitted w' = emitted (check_permute (permute a) w) @ evs @
             [Parallel ''_chunk_perm_ols'' (perm_n_jobs (robust a) (n_jobs a)) (nat pm)] \<and>
           0 \<le> pm \<and> coefs (self w') = Some tbl \<and>
           map_of (columns tbl) ''Num_perm'' =
             Some (replicate (length (index tbl)) (Num (real_of_int pm)))"
proof -
  from assms(1) obtain w1 rb cl weight_vals wg y x b se t res w4 w5 df where
    sr: "select_robust (robust a) (cluster a) (check_permute (permute a) w) = (w1, Inr (rb, cl))"
    and rd: "resolve_df E a cl x wg w4 = (w5, Inr df)"
    and e4: "emitted w4 = emitted (check_permute (permute a) w)"
    and inf: "inference E a rb cl x y b se t res df w5 = (w', Inr r)"
    by (rule fit_InrE)
  from inf obtain w6 ci_l ci_u w7 p dfs sig results where
    ci: "confidence_intervals E a b se (replicate (length t) df) w5 = (w6, Inr (ci_l, ci_u))"
    and sg: "significance E a rb cl x y t df w6 = (w7, Inr (p, dfs, sig))"
    and mr: "make_results a x b ci_l ci_u se dfs t p sig = Inr results"
    and st: "store_results E a x y res results w7 = (w', Inr r)"
    by (rule inference_InrE)
  from assms(2,3) have tr: "truthy_int (permute a)" by simp
  from significance_permute[OF sg assms(2,3)] have
    pm: "0 \<le> pm" and dfs: "dfs = replicate (length p) (real_of_int pm)"
    and e7: "emitted w7 = emitted w6 @
        [Parallel ''_chunk_perm_ols'' (perm_n_jobs rb (n_jobs a)) (nat pm)]"
    by (auto elim: permutation_test_InrE)
  have nj: "perm_n_jobs rb (n_jobs a) = perm_n_jobs (robust a) (n_jobs a)"
    by (rule perm_n_jobs_cong[OF select_robust_truthy[OF sr]])
  from resolve_df_world[OF rd] obtain e1 where e5: "emitted w5 = emitted w4 @ e1"
    by auto
  from confidence_intervals_world[OF ci] obtain e2 where e6: "emitted w6 = emitted w5 @ e2"
    by auto
  have e': "emitted w' = emitted w7" and c: "coefs (self w') = Some results"
    using store_results_world[OF st] store_results_Inr[OF st] by simp_all
  have "map_of (columns results) ''Num_perm'' =
      Some (replicate (length (index results)) (Num (real_of_int pm)))"
    using make_results_Inr(9)[OF mr tr] make_results_Inr(1,4)[OF mr] dfs by simp
  with e' e7 e6 e5 e4 nj pm c show ?thesis
    by (intro exI[of _ "e1 @ e2"] exI[of _ results]) simp
qed

lemma handle_weights_WName:
  assumes "handle_weights E (WName nm) m = Inr (wv, wg)"
  shows "\<exists>keys dvcol vals. map_of (data m) nm = Some keys \<and>
           map_of (data m) (split_tilde_first (formula m)) = Some dvcol \<and>
           series_reals dvcol = Inr vals \<and> wg = Some (keys, vals)"
  using assms by (auto simp: handle_weights_def split: option.splits sum.splits)

lemma select_robust_no_cluster:
  "select_robust rb None w = (w1, Inr (rb', cl)) \<Longrightarrow> cl = CNone"
  by (auto simp: select_robust_def Let_def split: if_splits)

lemma select_robust_proj:
  assumes "select_robust rb cl w = (w1, r)"
  shows "data (self w1) = data (self w)" "formula (self w1) = formula (self w)"
    "warnings (self w1) = warnings (self w)" "emitted w1 = emitted w"
  using select_robust_world[OF assms] by auto

lemma welch_df_spec:
  assumes "welch_ingredients E = welch_ingredients_spec s2"
  shows "welch_df E keys vals =
     (\<Sum>k\<leftarrow>remdups keys. s2 (group_values keys vals k))\<^sup>2 /
     (\<Sum>k\<leftarrow>remdups keys. (s2 (group_values keys vals k))\<^sup>2 /
                            (real (length (group_values keys vals k)) - 1))"
  by (simp add: welch_df_def assms welch_ingredients_spec_def Let_def comp_def)

lemma msgs_differ: "welch_msg \<noteq> low_permute_msg"
  by (simp add: welch_msg_def low_permute_msg_def)

lemma Lm2_head_se_type:
  "se_type (fst (Lm2_fit_head (RBool True) conf pm perm_on rk nboot tc cl m)) =
     Some ''robust (hc0)''"
  by (simp add: Lm2_fit_head_def Let_def split: option.splits corrs_arg.splits)

lemma Lm2_head_selected:
  "Lm2_fit_head (RBool True) conf pm perm_on rk nboot tc cl m = (m', Inr (rb, cv))
     \<Longrightarrow> rb = RStr ''hc0''"
  by (simp add: Lm2_fit_head_def Let_def split: option.splits corrs_arg.splits if_splits)

lemma select_robust_True_label:
  "se_type (self (fst (select_robust (RBool True) cl w))) = Some ''robust (hc1)''"
  by (simp add: select_robust_def Let_def split: option.splits)

lemma select_robust_True_selected:
  "select_robust (RBool True) cl w = (w1, Inr (rb, cv)) \<Longrightarrow> rb = RStr ''hc1''"
  by (simp add: select_robust_def Let_def split: option.splits if_splits)

subsection \<open>The outcome does not depend on the logs\<close>

lemma unlogged_reads [simp]:
  "data (self (unlogged w)) = data (self w)"
  "formula (self (unlogged w)) = formula (self w)"
  "rng (unlogged w) = rng w"
  by (simp_all add: unlogged_def)

lemma unlogged_eqD:
  assumes "unlogged w = unlogged v"
  shows "data (self w) = data (self v)" "formula (self w) = formula (self v)" "rng w = rng v"
proof -
  from assms have "data (self (unlogged w)) = data (self (unlogged v))"
    "formula (self (unlogged w)) = formula (self (unlogged v))"
    "rng (unlogged w) = rng (unlogged v)"
    by simp_all
  then show "data (self w) = data (self v)" "formula (self w) = formula (self v)" "rng w = rng v"
    by simp_all
qed

lemma unlogged_steps [simp]:
  "unlogged (warn m w) = unlogged w"
  "unlogged (dispatch f j n w) = unlogged w"
  "unlogged (set_se_type s w) = set_se_type s (unlogged w)"
  "unlogged (set_labels a w) = set_labels a (unlogged w)"
  "unlogged (set_estimator wt w) = set_estimator wt (unlogged w)"
  "unlogged (w\<lparr>rng := g\<rparr>) = (unlogged w)\<lparr>rng := g\<rparr>"
  "unlogged (w\<lparr>self := (self w)\<lparr>design_matrix := d\<rparr>\<rparr>) =
     (unlogged w)\<lparr>self := (self (unlogged w))\<lparr>design_matrix := d\<rparr>\<rparr>"
  by (simp_all add: unlogged_def warn_def dispatch_def set_se_type_def set_labels_def
      set_estimator_def)

lemma agreeD:
  "agree p q \<Longrightarrow> p = (w, r) \<Longrightarrow> q = (v, s) \<Longrightarrow> unlogged w = unlogged v \<and> r = s"
  by (simp add: agree_def)

lemma select_robust_agree:
  assumes "unlogged w = unlogged v"
  shows "agree (select_robust rb cl w) (select_robust rb cl v)"
  using assms unlogged_eqD(1)[OF assms]
  by (simp add: select_robust_def agree_def Let_def split: option.splits)

lemma handle_weights_agree:
  assumes "data m = data m'" "formula m = formula m'"
  shows "handle_weights E wt m = handle_weights E wt m'"
  unfolding handle_weights_def assms by (rule refl)

lemma resolve_df_agree:
  assumes "unlogged w = unlogged v"
  shows "agree (resolve_df E a cl x wg w) (resolve_df E a cl x wg v)"
  using assms
  by (simp add: resolve_df_def agree_def split: cluster_val.splits option.splits)

lemma draw_seeds_agree:
  assumes "unlogged w = unlogged v"
  shows "agree (draw_seeds E n w) (draw_seeds E n v)"
  using assms unlogged_eqD(3)[OF assms]
  by (simp add: draw_seeds_def agree_def)

lemma bootstrap_ci_agree:
  assumes "unlogged w = unlogged v"
  shows "agree (bootstrap_ci E a w) (bootstrap_ci E a v)"
proof -
  obtain w1 r1 where 1: "draw_seeds E (n_boot a) w = (w1, r1)"
    by (cases "draw_seeds E (n_boot a) w")
  obtain v1 s1 where 2: "draw_seeds E (n_boot a) v = (v1, s1)"
    by (cases "draw_seeds E (n_boot a) v")
  from agreeD[OF draw_seeds_agree[OF assms] 1 2] have u: "unlogged w1 = unlogged v1" "r1 = s1"
    by simp_all
  show ?thesis
    using 1 2 u unlogged_eqD(1,2)[OF assms]
    by (simp add: bootstrap_ci_def agree_def Let_def split: sum.splits)
qed

lemma confidence_intervals_agree:
  assumes "unlogged w = unlogged v"
  shows "agree (confidence_intervals E a b se dfs w) (confidence_intervals E a b se dfs v)"
  using bootstrap_ci_agree[OF assms] assms
  by (simp add: confidence_intervals_def agree_def)

lemma permutation_test_agree:
  assumes "unlogged w = unlogged v"
  shows "agree (permutation_test E a pm rb cl x y t w) (permutation_test E a pm rb cl x y t v)"
proof -
  obtain w1 r1 where 1: "draw_seeds E pm w = (w1, r1)"
    by (cases "draw_seeds E pm w")
  obtain v1 s1 where 2: "draw_seeds E pm v = (v1, s1)"
    by (cases "draw_seeds E pm v")
  from agreeD[OF draw_seeds_agree[OF assms] 1 2] have u: "unlogged w1 = unlogged v1" "r1 = s1"
    by simp_all
  show ?thesis
    using 1 2 u
    by (simp add: permutation_test_def agree_def Let_def split: sum.splits)
qed

lemma significance_agree:
  assumes "unlogged w = unlogged v"
  shows "agree (significance E a rb cl x y t df w) (significance E a rb cl x y t df v)"
  using permutation_test_agree[OF assms] assms
  by (simp add: significance_def agree_def split: option.splits)

lemma store_results_unlogged:
  "agree (store_results E a x y res results w) (store_results E a x y res results (unlogged w))"
  by (simp add: store_results_def agree_def unlogged_def Let_def set_column_def
      fit_statistics_def summary_def)

lemma store_results_agree:
  assumes "unlogged w = unlogged v"
  shows "agree (store_results E a x y res results w) (store_results E a x y res results v)"
  using store_results_unlogged[of E a x y res results w]
    store_results_unlogged[of E a x y res results v] assms
  by (simp add: agree_def)

lemma inference_agree:
  assumes "unlogged w = unlogged v"
  shows "agree (inference E a rb cl x y b se t res df w) (inference E a rb cl x y b se t res df v)"
proof -
  obtain w1 r1 where 1: "confidence_intervals E a b se (replicate (length t) df) w = (w1, r1)"
    by (cases "confidence_intervals E a b se (replicate (length t) df) w")
  obtain v1 s1 where 2: "confidence_intervals E a b se (replicate (length t) df) v = (v1, s1)"
    by (cases "confidence_intervals E a b se (replicate (length t) df) v")
  from agreeD[OF confidence_intervals_agree[OF assms] 1 2]
  have u1: "unlogged w1 = unlogged v1" and "r1 = s1"
    by simp_all
  with 2 have 2: "confidence_intervals E a b se (replicate (length t) df) v = (v1, r1)"
    by simp
  note fin = prod.case sum.case agree_def fst_conv snd_conv simp_thms
  show ?thesis
  proof (cases r1)
    case (Inl e)
    show ?thesis
      by (simp only: inference_def 1 2 Inl fin u1)
  next
    case (Inr cis)
    obtain ci_l ci_u where cis: "cis = (ci_l, ci_u)" by (cases cis)
    obtain w2 r2 where 3: "significance E a rb cl x y t df w1 = (w2, r2)"
      by (cases "significance E a rb cl x y t df w1")
    obtain v2 s2 where 4: "significance E a rb cl x y t df v1 = (v2, s2)"
      by (cases "significance E a rb cl x y t df v1")
    from agreeD[OF significance_agree[OF u1] 3 4]
    have u2: "unlogged w2 = unlogged v2" and "r2 = s2"
      by simp_all
    with 4 have 4: "significance E a rb cl x y t df v1 = (v2, r2)"
      by simp
    show ?thesis
    proof (cases r2)
      case (Inl e)
      show ?thesis
        by (simp only: inference_def 1 2 Inr cis 3 4 Inl fin u2)
    next
      case sg: (Inr s)
      obtain p dfs sig where s: "s = (p, dfs, sig)" by (cases s)
      show ?thesis
      proof (cases "make_results a x b ci_l ci_u se dfs t p sig")
        case (Inl e)
        show ?thesis
          by (simp only: inference_def 1 2 Inr cis 3 4 sg s Inl fin u2)
      next
        case mr: (Inr results)
        from store_results_agree[OF u2, of E a x y res results] show ?thesis
          by (simp only: inference_def 1 2 Inr cis 3 4 sg s mr fin)
      qed
    qed
  qed
qed

lemma fit_after_check_agree:
  assumes "unlogged w = unlogged v"
  shows "agree (fit_after_check E a w) (fit_after_check E a v)"
proof -
  obtain w1 r1 where 1: "select_robust (robust a) (cluster a) w = (w1, r1)"
    by (cases "select_robust (robust a) (cluster a) w")
  obtain v1 s1 where 2: "select_robust (robust a) (cluster a) v = (v1, s1)"
    by (cases "select_robust (robust a) (cluster a) v")
  from agreeD[OF select_robust_agree[OF assms] 1 2]
  have u1: "unlogged w1 = unlogged v1" and "r1 = s1"
    by simp_all
  with 2 have 2: "select_robust (robust a) (cluster a) v = (v1, r1)"
    by simp
  note fin = prod.case sum.case agree_def fst_conv snd_conv simp_thms
  show ?thesis
  proof (cases r1)
    case (Inl e)
    show ?thesis
      by (simp only: fit_after_check_def 1 2 Inl fin u1)
  next
    case (Inr rc)
    obtain rb cl where rc: "rc = (rb, cl)" by (cases rc)
    let ?w2 = "set_labels a w1" and ?v2 = "set_labels a v1"
    have u2: "unlogged ?w2 = unlogged ?v2"
      using u1 by simp
    note d2 = unlogged_eqD[OF u2]
    have hw: "handle_weights E (weights a) (self ?w2) = handle_weights E (weights a) (self ?v2)"
      by (rule handle_weights_agree[OF d2(1,2)])
    show ?thesis
    proof (cases "handle_weights E (weights a) (self ?v2)")
      case (Inl e)
      show ?thesis
        by (simp only: fit_after_check_def Let_def 1 2 Inr rc hw Inl fin u2)
    next
      case h: (Inr wv)
      obtain weight_vals wg where wv: "wv = (weight_vals, wg)" by (cases wv)
      let ?w3 = "set_estimator (weights a) ?w2" and ?v3 = "set_estimator (weights a) ?v2"
      have u3: "unlogged ?w3 = unlogged ?v3"
        using u2 by simp
      note d3 = unlogged_eqD[OF u3]
      let ?dv = "if rank a then frame_rank E (data (self ?v2)) else data (self ?v2)"
      have dd: "(if rank a then frame_rank E (data (self ?w2)) else data (self ?w2)) = ?dv"
        using d2(1) by simp
      have fm: "formula (self ?w3) = formula (self ?v3)"
        by (rule d3(2))
      show ?thesis
      proof (cases "dmatrices E (formula (self ?v3)) ?dv")
        case (Inl e)
        show ?thesis
          by (simp only: fit_after_check_def Let_def 1 2 Inr rc hw h wv dd fm Inl fin u3)
      next
        case dm: (Inr yx)
        obtain y x where yx: "yx = (y, x)" by (cases yx)
        let ?w4 = "?w3\<lparr>self := (self ?w3)\<lparr>design_matrix := Some x\<rparr>\<rparr>"
        let ?v4 = "?v3\<lparr>self := (self ?v3)\<lparr>design_matrix := Some x\<rparr>\<rparr>"
        have u4: "unlogged ?w4 = unlogged ?v4"
          using u3 by (simp only: unlogged_steps)
        show ?thesis
        proof (cases "ols E x y rb (n_lags a) cl weight_vals")
          case (Inl e)
          show ?thesis
            by (simp only: fit_after_check_def Let_def 1 2 Inr rc hw h wv dd fm dm yx Inl fin u4)
        next
          case o: (Inr est)
          obtain b se t res where est: "est = (b, se, t, res)" by (cases est)
          obtain w5 r5 where 5: "resolve_df E a cl x wg ?w4 = (w5, r5)"
            by (cases "resolve_df E a cl x wg ?w4")
          obtain v5 s5 where 6: "resolve_df E a cl x wg ?v4 = (v5, s5)"
            by (cases "resolve_df E a cl x wg ?v4")
          from agreeD[OF resolve_df_agree[OF u4] 5 6]
          have u5: "unlogged w5 = unlogged v5" and "r5 = s5"
            by simp_all
          with 6 have 6: "resolve_df E a cl x wg ?v4 = (v5, r5)"
            by simp
          show ?thesis
          proof (cases r5)
            case (Inl e)
            show ?thesis
              by (simp only: fit_after_check_def Let_def 1 2 Inr rc hw h wv dd fm dm yx o est 5 6 Inl fin u5)
          next
            case df: (Inr df)
            from inference_agree[OF u5, of E a rb cl x y b se t res df]
            show ?thesis
              by (simp only: fit_after_check_def Let_def 1 2 Inr rc hw h wv dd fm dm yx o est 5 6 df fin)
          qed
        qed
      qed
    qed
  qed
qed

lemma fit_after_check_warn: "snd (fit_after_check E a (warn m w)) = snd (fit_after_check E a w)"
  using fit_after_check_agree[of "warn m w" w E a] by (simp add: agree_def)


subsection \<open>The table of \<^verbatim>\<open>Lmer.fit\<close> under bootstrapped intervals\<close>

lemma series_reals_Inr: "series_reals c = Inr l \<Longrightarrow> c = map Num l"
  by (induction c arbitrary: l rule: series_reals.induct) (auto split: sum.splits)

lemma map_of_filter_fst:
  "map_of (filter (\<lambda>cv. fst cv \<notin> S) xs) k = (if k \<in> S then None else map_of xs k)"
  by (induction xs) auto

lemma drop_columns_Inr:
  assumes "drop_columns cs t = Inr t'"
  shows "columns t' = filter (\<lambda>cv. fst cv \<notin> set cs) (columns t)"
  using assms by (auto simp: drop_columns_def split: if_splits)

lemma Lmer_boot_significance_markers:
  assumes "Lmer_boot_significance ''boot'' None df = Inr df'"
  shows "\<not> has_column ''P-val'' df' \<and> \<not> has_column ''DF'' df' \<and>
         (\<exists>l u. map_of (columns df) ''2.5_ci'' = Some (map Num l) \<and>
                map_of (columns df) ''97.5_ci'' = Some (map Num u) \<and>
                map_of (columns df') ''Sig'' =
                  Some (map (\<lambda>(lo_i, hi_i). Str (if lo_i * hi_i > 0 then ''*'' else []))
                         (zip l u)))"
proof -
  from assms obtain df1 where 1: "drop_columns [''P-val'', ''Sig''] df = Inr df1"
    by (cases "drop_columns [''P-val'', ''Sig''] df") (auto simp: Lmer_boot_significance_def)
  let ?d2 = "if has_column ''DF'' df1 then drop_columns [''DF''] df1 else Inr df1"
  from assms 1 obtain df2 where 2: "?d2 = Inr df2"
    by (cases ?d2) (auto simp: Lmer_boot_significance_def)
  have c1: "columns df1 = filter (\<lambda>cv. fst cv \<notin> {''P-val'', ''Sig''}) (columns df)"
    using drop_columns_Inr[OF 1] by simp
  have c2: "columns df2 = filter (\<lambda>cv. fst cv \<notin> {''DF''}) (columns df1)"
  proof (cases "has_column ''DF'' df1")
    case True
    with 2 show ?thesis using drop_columns_Inr[of "[''DF'']" df1 df2] by simp
  next
    case False
    with 2 have "df2 = df1" by simp
    moreover from False have "filter (\<lambda>cv. fst cv \<notin> {''DF''}) (columns df1) = columns df1"
      by (force simp: has_column_def filter_id_conv)
    ultimately show ?thesis by simp
  qed
  have m2: "map_of (columns df2) k =
      (if k \<in> {''DF'', ''P-val'', ''Sig''} then None else map_of (columns df) k)" for k
    unfolding c2 c1 map_of_filter_fst by auto
  from assms 1 2 obtain lo where lo: "map_of (columns df2) ''2.5_ci'' = Some lo"
    by (cases "map_of (columns df2) ''2.5_ci''") (auto simp: Lmer_boot_significance_def)
  from assms 1 2 lo obtain hi where hi: "map_of (columns df2) ''97.5_ci'' = Some hi"
    by (cases "map_of (columns df2) ''97.5_ci''") (auto simp: Lmer_boot_significance_def)
  from assms 1 2 lo hi obtain l where l: "series_reals lo = Inr l"
    by (cases "series_reals lo") (auto simp: Lmer_boot_significance_def)
  from assms 1 2 lo hi l obtain u where u: "series_reals hi = Inr u"
    by (cases "series_reals hi") (auto simp: Lmer_boot_significance_def)
  from assms 1 2 lo hi l u have df': "df' = df2\<lparr>columns :=
      AList.update ''Sig'' (map (\<lambda>(lo_i, hi_i). Str (interval_marker lo_i hi_i)) (zip l u))
        (columns df2)\<rparr>"
    by (simp add: Lmer_boot_significance_def)
  have "fst ` set (columns df') = insert ''Sig'' (fst ` set (columns df2))"
    by (simp add: df' dom_update)
  moreover have "''P-val'' \<notin> fst ` set (columns df2)" "''DF'' \<notin> fst ` set (columns df2)"
    unfolding c2 c1 by auto
  ultimately have a: "\<not> has_column ''P-val'' df'" "\<not> has_column ''DF'' df'"
    by (auto simp: has_column_def)
  have b: "map_of (columns df) ''2.5_ci'' = Some (map Num l)"
    "map_of (columns df) ''97.5_ci'' = Some (map Num u)"
    using lo hi m2[of "''2.5_ci''"] m2[of "''97.5_ci''"] series_reals_Inr[OF l] series_reals_Inr[OF u]
    by simp_all
  have c: "map_of (columns df') ''Sig'' =
      Some (map (\<lambda>(lo_i, hi_i). Str (if lo_i * hi_i > 0 then ''*'' else [])) (zip l u))"
    by (simp add: df' update_conv' interval_marker_def)
  from a b c show ?thesis by blast
qed

section \<open>Lemmas about the estimators of the specification\<close>

lemma diagonal_map: "diagonal (map (map f) V) = map f (diagonal V)"
proof -
  have "\<And>k. concat (map (\<lambda>(i, row). take 1 (drop i row)) (zip [k..<k + length V] (map (map f) V)))
    = map f (concat (map (\<lambda>(i, row). take 1 (drop i row)) (zip [k..<k + length V] V)))"
  proof (induction V)
    case Nil
    then show ?case by simp
  next
    case (Cons r V)
    have "[k..<k + length (r # V)] = k # [Suc k..<Suc k + length V]"
      by (simp add: upt_rec)
    then show ?case
      using Cons[of "Suc k"] by (simp add: take_map drop_map)
  qed
  from this[of 0] show ?thesis
    by (simp add: diagonal_def)
qed

lemma se_scale:
  "standard_errors (map (map (\<lambda>v. v * c)) V) = map (\<lambda>s. s * sqrt c) (standard_errors V)"
  by (simp add: standard_errors_def diagonal_map real_sqrt_mult)

lemmas ols_defs = hc0_def hc1_def residuals_def ols_coefficients_def bread_def mat_mul_def diag_def
  diagonal_def standard_errors_def inverse_1x1_def n_columns_def

lemma sample_hc0_se: "standard_errors (hc0 inverse_1x1 [[1],[1]] [0, 2]) = [sqrt (1/2)]"
  by (simp add: ols_defs upt_rec[of 0] upt_rec[of 1] upt_rec[of "Suc 0"] numeral_2_eq_2)

lemma sample_hc1_se: "standard_errors (hc1 inverse_1x1 [[1],[1]] [0, 2]) = [1]"
  by (simp add: ols_defs upt_rec[of 0] upt_rec[of 1] upt_rec[of "Suc 0"] numeral_2_eq_2)

section \<open>The claims\<close>

text \<open>
  C1 does not hold of \<^verbatim>\<open>Lm.fit\<close>: on the sample, a call with \<^verbatim>\<open>conf_int="boot"\<close> and
  no permutation test returns a table that still has the columns \<^verbatim>\<open>DF\<close> and \<^verbatim>\<open>P-val\<close>,
  and the marker of the intercept is the one of the parametric p-value 0.058, a dot,
  although the bootstrap interval from 6 to 12 excludes zero. The model's
  inference type says \<^verbatim>\<open>bootstrapped\<close> all the same, and what \<^verbatim>\<open>Lmer.fit\<close> does to
  its table in the same situation, applied to this one, drops the two columns and marks
  the intercept.
\<close>

theorem boot_keeps_parametric_columns:
  "fit sample_env boot_args sample_world =
     (fst (fit sample_env boot_args sample_world),
      Inr (Some \<lparr>index = [''Intercept''],
           columns = [(''Estimate'', [Num 9]), (''2.5_ci'', [Num 6]), (''97.5_ci'', [Num 12]),
                      (''SE'', [Num 3]), (''DF'', [Num 3]), (''T-stat'', [Num 3]),
                      (''P-val'', [Num 0.058]), (''Sig'', [Str ''.''])]\<rparr>)) \<and>
   coefs (self (fst (fit sample_env boot_args sample_world))) =
     Some \<lparr>index = [''Intercept''],
           columns = [(''Estimate'', [Num 9]), (''2.5_ci'', [Num 6]), (''97.5_ci'', [Num 12]),
                      (''SE'', [Num 3]), (''DF'', [Num 3]), (''T-stat'', [Num 3]),
                      (''P-val'', [Num 0.058]), (''Sig'', [Str ''.''])]\<rparr> \<and>
   sig_type (self (fst (fit sample_env boot_args sample_world))) = Some ''bootstrapped'' \<and>
   ci_type (self (fst (fit sample_env boot_args sample_world))) = Some ''boot (3)'' \<and>
   Lmer_boot_significance ''boot'' None
     \<lparr>index = [''Intercept''],
      columns = [(''Estimate'', [Num 9]), (''2.5_ci'', [Num 6]), (''97.5_ci'', [Num 12]),
                 (''SE'', [Num 3]), (''DF'', [Num 3]), (''T-stat'', [Num 3]),
                 (''P-val'', [Num 0.058]), (''Sig'', [Str ''.''])]\<rparr> =
     Inr \<lparr>index = [''Intercept''],
          columns = [(''Estimate'', [Num 9]), (''2.5_ci'', [Num 6]), (''97.5_ci'', [Num 12]),
                     (''SE'', [Num 3]), (''T-stat'', [Num 3]), (''Sig'', [Str ''*''])]\<rparr>"
  by (simp add: prod_eq_iff fit_defs sample_defs boot_args_def has_column_def drop_columns_def interval_marker_def Lmer_boot_significance_def Let_def upt_small numeral_3_eq_3 str_nat.simps)

text \<open>
  C2, as the code has it: for a call of \<^verbatim>\<open>Lm.fit\<close> with \<^verbatim>\<open>robust="cluster"\<close>, a cluster
  column of the data and no permutation test, that returns normally, the \<^verbatim>\<open>DF\<close> column
  holds, for every coefficient, the number of distinct values of the cluster column minus
  the number of columns of the design matrix. Nothing keeps that difference above zero.
\<close>

theorem cluster_degrees_of_freedom:
  assumes "fit E a w = (w', Inr r)"
    and "robust a = RStr ''cluster''"
    and "cluster a = Some c" and "map_of (data (self w)) c = Some col"
    and "\<not> truthy_int (permute a)"
  shows "\<exists>tbl x. coefs (self w') = Some tbl \<and> design_matrix (self w') = Some x \<and>
           index tbl = names x \<and>
           map_of (columns tbl) ''DF'' =
             Some (replicate (shape1 x) (Num (real_of_int (int (nunique col) - int (shape1 x)))))"
proof -
  from assms(1) obtain w1 rb cl weight_vals wg y x b se t res w4 w5 df where
    sr: "select_robust (robust a) (cluster a) (check_permute (permute a) w) = (w1, Inr (rb, cl))"
    and rd: "resolve_df E a cl x wg w4 = (w5, Inr df)"
    and dm4: "design_matrix (self w4) = Some x"
    and inf: "inference E a rb cl x y b se t res df w5 = (w', Inr r)"
    by (rule fit_InrE)
  from inf obtain w6 ci_l ci_u w7 p dfs sig results where
    ci: "confidence_intervals E a b se (replicate (length t) df) w5 = (w6, Inr (ci_l, ci_u))"
    and sg: "significance E a rb cl x y t df w6 = (w7, Inr (p, dfs, sig))"
    and mr: "make_results a x b ci_l ci_u se dfs t p sig = Inr results"
    and st: "store_results E a x y res results w7 = (w', Inr r)"
    by (rule inference_InrE)
  have cl: "cl = CSeries col"
  proof (cases "c = []")
    case True
    with sr assms(2,3) have "cl = CName c"
      by (auto simp: select_robust_def Let_def)
    with rd show ?thesis by (simp add: resolve_df_def)
  next
    case False
    from sr assms(2,3) have "select_robust (RStr ''cluster'') (Some c) (check_permute (permute a) w)
        = (w1, Inr (rb, cl))"
      by simp
    from select_robust_cluster[OF this _ False] assms(4) show ?thesis
      by simp
  qed
  from rd cl have df: "df = real_of_int (int (nunique col) - int (shape1 x))"
    by (auto simp: resolve_df_def)
  have dm7: "design_matrix (self w7) = Some x"
    using resolve_df_self[OF rd] confidence_intervals_world[OF ci] significance_world[OF sg] dm4
    by simp
  have "coefs (self w') = Some results" "design_matrix (self w') = Some x"
    using store_results_Inr[OF st] dm7 by simp_all
  moreover have "index results = names x"
    using make_results_Inr(1)[OF mr] .
  moreover have "map_of (columns results) ''DF'' = Some (replicate (shape1 x) (Num df))"
    using make_results_Inr(8)[OF mr assms(5)] significance_parametric(1)[OF sg assms(5)]
      make_results_Inr(2)[OF mr]
    by (simp add: shape1_def)
  ultimately show ?thesis
    using df by blast
qed

theorem cluster_degrees_of_freedom_witness:
  "snd (fit sample_env cluster_args sample_world) = Inr None \<and>
   (\<exists>tbl x. coefs (self (fst (fit sample_env cluster_args sample_world))) = Some tbl \<and>
      design_matrix (self (fst (fit sample_env cluster_args sample_world))) = Some x \<and>
      index tbl = names x \<and>
      map_of (columns tbl) ''DF'' =
        Some (replicate (shape1 x)
               (Num (real_of_int (int (nunique [Str ''x'', Str ''y'', Str ''z'', Str ''x''])
                                   - int (shape1 x))))))"
proof -
  have ev: "snd (fit sample_env cluster_args sample_world) = Inr None"
    by (simp add: fit_defs sample_defs cluster_args_def Let_def)
  then have "fit sample_env cluster_args sample_world =
      (fst (fit sample_env cluster_args sample_world), Inr None)"
    by (simp add: prod_eq_iff)
  from cluster_degrees_of_freedom[OF this, of "''Site''" "[Str ''x'', Str ''y'', Str ''z'', Str ''x'']"]
  show ?thesis
    using ev by (simp add: sample_defs cluster_args_def)
qed

text \<open>
  C2 as stated fails in its last part: on the six-row data, the formula \<^verbatim>\<open>DV ~ IV\<close> with
  \<^verbatim>\<open>robust="cluster"\<close> and the two clusters of \<^verbatim>\<open>Group\<close> gives a design with two columns,
  and so the degrees of freedom 2 - 2 = 0 for both coefficients, which is below 1. This
  holds whatever \<^verbatim>\<open>_ols\<close> returns for the two coefficients and whatever the Student-t
  functions give at 0 degrees of freedom, where the distribution is not defined; the
  p-values and interval bounds of this run are left open. And the equation holds of the
  \<^verbatim>\<open>DF\<close> column only when no permutation test is requested: on the four-row sample with
  \<^verbatim>\<open>permute=3\<close> the table has no \<^verbatim>\<open>DF\<close> column, and \<^verbatim>\<open>Num_perm\<close> holds the
  permutation count in its place.
\<close>

theorem cluster_degrees_of_freedom_counterexample:
  "(\<forall>b0 b1 s0 s1 t0 t1 r1 r2 r3 r4 r5 r6 cdf ppf.
      let E = given_env slope_dmatrices
                ([b0, b1], [s0, s1], [t0, t1], [r1, r2, r3, r4, r5, r6]) cdf ppf
      in snd (fit E two_cluster_args slope_world) = Inr None \<and>
         design_matrix (self (fst (fit E two_cluster_args slope_world))) =
           Some \<lparr>names = [''Intercept'', ''IV''],
                 rows = [[1, 1], [1, 2], [1, 3], [1, 4], [1, 5], [1, 6]]\<rparr> \<and>
         map_option (\<lambda>tbl. (index tbl, map_of (columns tbl) ''DF''))
           (coefs (self (fst (fit E two_cluster_args slope_world)))) =
           Some ([''Intercept'', ''IV''], Some [Num 0, Num 0])) \<and>
   robust two_cluster_args = RStr ''cluster'' \<and> cluster two_cluster_args = Some ''Group'' \<and>
   permute two_cluster_args = None \<and>
   map_of (data (self slope_world)) ''Group'' =
     Some [Str ''a'', Str ''b'', Str ''a'', Str ''b'', Str ''a'', Str ''b''] \<and>
   nunique [Str ''a'', Str ''b'', Str ''a'', Str ''b'', Str ''a'', Str ''b''] = 2 \<and>
   \<not> (1 \<le> int (nunique [Str ''a'', Str ''b'', Str ''a'', Str ''b'', Str ''a'', Str ''b''])
            - int (length [''Intercept'', ''IV''])) \<and>
   snd (fit sample_env cluster_permute_args sample_world) = Inr None \<and>
   map_option (\<lambda>tbl. (map_of (columns tbl) ''DF'', map_of (columns tbl) ''Num_perm''))
     (coefs (self (fst (fit sample_env cluster_permute_args sample_world)))) =
     Some (None, Some [Num 3])"
proof -
  have a: "\<forall>b0 b1 s0 s1 t0 t1 r1 r2 r3 r4 r5 r6 cdf ppf.
      let E = given_env slope_dmatrices
                ([b0, b1], [s0, s1], [t0, t1], [r1, r2, r3, r4, r5, r6]) cdf ppf
      in snd (fit E two_cluster_args slope_world) = Inr None \<and>
         design_matrix (self (fst (fit E two_cluster_args slope_world))) =
           Some \<lparr>names = [''Intercept'', ''IV''],
                 rows = [[1, 1], [1, 2], [1, 3], [1, 4], [1, 5], [1, 6]]\<rparr> \<and>
         map_option (\<lambda>tbl. (index tbl, map_of (columns tbl) ''DF''))
           (coefs (self (fst (fit E two_cluster_args slope_world)))) =
           Some ([''Intercept'', ''IV''], Some [Num 0, Num 0])"
    by (simp add: fit_defs sample_defs grouped_data_def grouped_lm_def grouped_world_def slope_world_def slope_dmatrices_def
        given_env_def two_cluster_args_def Let_def)
  have b: "robust two_cluster_args = RStr ''cluster''" "cluster two_cluster_args = Some ''Group''"
    "permute two_cluster_args = None"
    "map_of (data (self slope_world)) ''Group'' =
       Some [Str ''a'', Str ''b'', Str ''a'', Str ''b'', Str ''a'', Str ''b'']"
    "nunique [Str ''a'', Str ''b'', Str ''a'', Str ''b'', Str ''a'', Str ''b''] = 2"
    "\<not> (1 \<le> int (nunique [Str ''a'', Str ''b'', Str ''a'', Str ''b'', Str ''a'', Str ''b''])
            - int (length [''Intercept'', ''IV'']))"
    by (simp_all add: sample_defs grouped_data_def grouped_lm_def grouped_world_def slope_world_def two_cluster_args_def nunique_def)
  have c: "snd (fit sample_env cluster_permute_args sample_world) = Inr None"
    "map_option (\<lambda>tbl. (map_of (columns tbl) ''DF'', map_of (columns tbl) ''Num_perm''))
     (coefs (self (fst (fit sample_env cluster_permute_args sample_world)))) =
     Some (None, Some [Num 3])"
    by (simp_all add: fit_defs sample_defs cluster_permute_args_def Let_def upt_small numeral_3_eq_3)
  from a b c show ?thesis
    by (intro conjI)
qed

text \<open>
  C3: for a call of \<^verbatim>\<open>Lm.fit\<close> with \<^verbatim>\<open>permute=P\<close>, \<open>P\<close> positive, that returns normally,
  the \<^verbatim>\<open>Perm-P-val\<close> of each coefficient is the number of permuted statistics of that
  coefficient whose absolute value is at least the absolute observed t-statistic, plus 1,
  over \<open>P + 1\<close>, and lies in \<open>(0, 1]\<close>. The observed t-statistics are those \<^verbatim>\<open>_ols\<close>
  returns for the design matrix and the response of the formula, the estimator and the
  cluster column of the call, and the weights of lines 1464 to 1474. The permuted
  statistics are the \<open>P\<close> rows \<^verbatim>\<open>_chunk_perm_ols\<close> returns for the same design, response,
  estimator and cluster column and the seeds drawn from the generator, after those of the
  bootstrap if there is one; the statistics of coefficient \<open>i\<close> are the entries \<open>i\<close> of
  these rows. \<^verbatim>\<open>_perm_find\<close> is the one the specification describes.
\<close>

theorem empirical_p_value:
  assumes "fit E a w = (w', Inr r)"
    and "permute a = Some P" and "0 < P"
    and "perm_find E = perm_find_spec"
  shows "\<exists>tbl pvals tstats perm_ts x y rb cl weight_vals wg b se res.
           dmatrices E (formula (self w))
             (if rank a then frame_rank E (data (self w)) else data (self w)) = Inr (y, x) \<and>
           rb = (if truthy_robust (robust a)
                 then RStr (case robust a of RBool _ \<Rightarrow> ''hc1'' | RStr s \<Rightarrow> s)
                 else robust a) \<and>
           (case cluster a of
              None \<Rightarrow> cl = CNone
            | Some c \<Rightarrow> \<exists>col. map_of (data (self w)) c = Some col \<and> cl = CSeries col) \<and>
           handle_weights E (weights a) (self w) = Inr (weight_vals, wg) \<and>
           ols E x y rb (n_lags a) cl weight_vals = Inr (b, se, tstats, res) \<and>
           collect (map (chunk_perm_ols E x y rb (n_lags a) cl (weights a))
                      (map (fst (np_random_randint E
                                   (if conf_int a = ''boot''
                                    then snd (np_random_randint E (rng w) int32_max (nat (n_boot a)))
                                    else rng w)
                                   int32_max (nat P)))
                         [0..<nat P])) = Inr perm_ts \<and>
           length perm_ts = nat P \<and>
           (\<forall>row\<in>set perm_ts. length pvals \<le> length row) \<and>
           coefs (self w') = Some tbl \<and> design_matrix (self w') = Some x \<and>
           index tbl = names x \<and>
           map_of (columns tbl) ''Perm-P-val'' = Some (map Num pvals) \<and>
           map_of (columns tbl) ''T-stat'' = Some (map Num tstats) \<and>
           length pvals = length (index tbl) \<and> length tstats = length (index tbl) \<and>
           (\<forall>i<length pvals.
              pvals ! i =
                (real (length (filter (\<lambda>v. \<bar>v\<bar> \<ge> \<bar>tstats ! i\<bar>) (map (\<lambda>row. row ! i) perm_ts))) + 1)
                  / (real_of_int P + 1) \<and>
              0 < pvals ! i \<and> pvals ! i \<le> 1)"
proof -
  let ?w0 = "check_permute (permute a) w"
  let ?g = "if conf_int a = ''boot''
            then snd (np_random_randint E (rng w) int32_max (nat (n_boot a))) else rng w"
  from assms(1) obtain w1 rb cl weight_vals wg y x b se t res w4 w5 df where
    sr: "select_robust (robust a) (cluster a) ?w0 = (w1, Inr (rb, cl))"
    and hw: "handle_weights E (weights a) (self (set_labels a w1)) = Inr (weight_vals, wg)"
    and dm: "dmatrices E (formula (self w))
       (if rank a then frame_rank E (data (self w)) else data (self w)) = Inr (y, x)"
    and ol: "ols E x y rb (n_lags a) cl weight_vals = Inr (b, se, t, res)"
    and rd: "resolve_df E a cl x wg w4 = (w5, Inr df)"
    and dm4: "design_matrix (self w4) = Some x"
    and inf: "inference E a rb cl x y b se t res df w5 = (w', Inr r)"
    and g4: "rng w4 = rng w"
    by (rule fit_InrE)
  from inf obtain w6 ci_l ci_u w7 p dfs sig results where
    ci: "confidence_intervals E a b se (replicate (length t) df) w5 = (w6, Inr (ci_l, ci_u))"
    and sg: "significance E a rb cl x y t df w6 = (w7, Inr (p, dfs, sig))"
    and mr: "make_results a x b ci_l ci_u se dfs t p sig = Inr results"
    and st: "store_results E a x y res results w7 = (w', Inr r)"
    by (rule inference_InrE)
  from assms(2,3) have tr: "truthy_int (permute a)" and P0: "P \<noteq> 0" by simp_all
  have g6: "rng w6 = ?g"
    using confidence_intervals_rng[OF ci] resolve_df_rng[OF rd] g4 by simp
  from permutation_test_seeds[OF significance_permute[OF sg assms(2) P0]] g6
  obtain perm_ts ncols where
    co: "collect (map (chunk_perm_ols E x y rb (n_lags a) cl (weights a))
           (map (fst (np_random_randint E ?g int32_max (nat P))) [0..<nat P])) = Inr perm_ts"
    and sh: "array_shape1 perm_ts = Inr ncols"
    and p: "p = perm_p_values E perm_ts ncols t"
    by auto
  have lp: "length perm_ts = nat P"
    using collect_length[OF co] by simp
  have rows: "\<forall>row\<in>set perm_ts. length p \<le> length row"
    using array_shape1_rows[OF sh] perm_p_values_length[of E perm_ts ncols t] p by simp
  have RB: "rb = (if truthy_robust (robust a)
                 then RStr (case robust a of RBool _ \<Rightarrow> ''hc1'' | RStr s \<Rightarrow> s)
                 else robust a)"
    using select_robust_selected(1)[OF sr] .
  have CL: "(case cluster a of
              None \<Rightarrow> cl = CNone
            | Some c \<Rightarrow> \<exists>col. map_of (data (self w)) c = Some col \<and> cl = CSeries col)"
    using select_robust_selected(2)[OF sr] rd resolve_df_CName
    by (auto split: option.splits)
  have HW: "handle_weights E (weights a) (self w) = Inr (weight_vals, wg)"
    using hw select_robust_proj[OF sr]
      handle_weights_reads[of "self (set_labels a w1)" "self w" E "weights a"]
    by simp
  have dm7: "design_matrix (self w7) = Some x"
    using resolve_df_self[OF rd] confidence_intervals_world[OF ci] significance_world[OF sg] dm4
    by simp
  have c: "coefs (self w') = Some results" and D: "design_matrix (self w') = Some x"
    using store_results_Inr[OF st] dm7 by simp_all
  have val: "p ! i = (real (length (filter (\<lambda>v. \<bar>v\<bar> \<ge> \<bar>t ! i\<bar>) (map (\<lambda>row. row ! i) perm_ts))) + 1)
                  / (real_of_int P + 1) \<and> 0 < p ! i \<and> p ! i \<le> 1" if "i < length p" for i
  proof -
    have e: "p ! i = perm_find_spec (map (\<lambda>row. row ! i) perm_ts) (t ! i)"
      using perm_p_values_nth[of i E perm_ts ncols t] that p assms(4)
      by (simp add: column_of_def)
    have "real (length (map (\<lambda>row. row ! i) perm_ts)) = real_of_int P"
      using lp assms(3) by simp
    then show ?thesis
      using perm_find_spec_bounds[of "map (\<lambda>row. row ! i) perm_ts" "t ! i"]
      unfolding e by (simp add: perm_find_spec_def)
  qed
  from val have V: "\<forall>i<length p.
              p ! i =
                (real (length (filter (\<lambda>v. \<bar>v\<bar> \<ge> \<bar>t ! i\<bar>) (map (\<lambda>row. row ! i) perm_ts))) + 1)
                  / (real_of_int P + 1) \<and>
              0 < p ! i \<and> p ! i \<le> 1"
    by blast
  have I: "index results = names x"
    using make_results_Inr(1)[OF mr] .
  have L: "length p = length (index results)" "length t = length (index results)"
    using make_results_Inr(1,2,4)[OF mr] by simp_all
  show ?thesis
    apply (rule exI[of _ results], rule exI[of _ p], rule exI[of _ t], rule exI[of _ perm_ts])
    apply (rule exI[of _ x], rule exI[of _ y], rule exI[of _ rb], rule exI[of _ cl])
    apply (rule exI[of _ weight_vals], rule exI[of _ wg])
    apply (rule exI[of _ b], rule exI[of _ se], rule exI[of _ res])
    apply (intro conjI)
                   apply (rule dm)
                  apply (rule RB)
                 apply (rule CL)
                apply (rule HW)
               apply (rule ol)
              apply (rule co)
             apply (rule lp)
            apply (rule rows)
           apply (rule c)
          apply (rule D)
         apply (rule I)
        apply (rule make_results_Inr(10)[OF mr tr])
       apply (rule make_results_tstat(1)[OF mr])
      apply (rule L(1))
     apply (rule L(2))
    apply (rule V)
    done
qed

theorem empirical_p_value_witness:
  "snd (fit sample_env permute_args sample_world) = Inr None \<and>
   permute permute_args = Some 3 \<and> perm_find sample_env = perm_find_spec \<and>
   (\<exists>tbl pvals. coefs (self (fst (fit sample_env permute_args sample_world))) = Some tbl \<and>
      map_of (columns tbl) ''Perm-P-val'' = Some (map Num pvals) \<and>
      length pvals = length (index tbl)) \<and>
   map_option (\<lambda>tbl. (map_of (columns tbl) ''T-stat'', map_of (columns tbl) ''Perm-P-val''))
     (coefs (self (fst (fit sample_env permute_args sample_world)))) =
     Some (Some [Num 3], Some [Num 1])"
proof -
  have ev: "snd (fit sample_env permute_args sample_world) = Inr None"
    by (simp add: fit_defs sample_defs permute_args_def Let_def upt_small numeral_3_eq_3)
  then have e: "fit sample_env permute_args sample_world =
      (fst (fit sample_env permute_args sample_world), Inr None)"
    by (simp add: prod_eq_iff)
  have p: "permute permute_args = Some 3" and f: "perm_find sample_env = perm_find_spec"
    by (simp_all add: sample_defs permute_args_def)
  have "0 < (3::int)" by simp
  from empirical_p_value[OF e p this f] obtain tbl pvals where
    "coefs (self (fst (fit sample_env permute_args sample_world))) = Some tbl"
    "map_of (columns tbl) ''Perm-P-val'' = Some (map Num pvals)"
    "length pvals = length (index tbl)"
    by (elim exE conjE)
  then have ex: "\<exists>tbl pvals. coefs (self (fst (fit sample_env permute_args sample_world))) = Some tbl \<and>
      map_of (columns tbl) ''Perm-P-val'' = Some (map Num pvals) \<and>
      length pvals = length (index tbl)"
    by blast
  have tb: "map_option (\<lambda>tbl. (map_of (columns tbl) ''T-stat'', map_of (columns tbl) ''Perm-P-val''))
     (coefs (self (fst (fit sample_env permute_args sample_world)))) =
     Some (Some [Num 3], Some [Num 1])"
    by (simp add: fit_defs sample_defs permute_args_def Let_def upt_small numeral_3_eq_3)
  from ev p f ex tb show ?thesis
    by (intro conjI)
qed

text \<open>
  C4: \<^verbatim>\<open>Lm.fit\<close> with \<^verbatim>\<open>robust=True\<close> and with \<^verbatim>\<open>robust="hc1"\<close>, all else equal, leave
  the same model (coefficient table, standard-error type, residuals and every other
  attribute), the same effects and the same return value.
\<close>

theorem robust_True_is_hc1:
  "fit E (a\<lparr>robust := RBool True\<rparr>) w = fit E (a\<lparr>robust := RStr ''hc1''\<rparr>) w"
  by (simp add: fit_def fit_after_check_def select_robust_True robust_irrelevant_stages robust_irrelevant_inference Let_def cong: case_congs)

text \<open>
  C5, as the code has it: for a call of \<^verbatim>\<open>Lm.fit\<close> that returns normally, with weights
  given as a column name, \<^verbatim>\<open>wls_dof_correction=True\<close> and no cluster argument: when the
  column does not have exactly two groups the fit emits the warning, appends it to the
  model's warnings and reports the degrees of freedom \<open>n - p\<close>; with exactly two groups it
  emits no such warning and reports the Welch-Satterthwaite degrees of freedom
  \<open>(\<Sum>\<^sub>i s\<^sub>i\<^sup>2)\<^sup>2 / \<Sum>\<^sub>i (s\<^sub>i\<^sup>4 / (n\<^sub>i - 1))\<close>. The \<^verbatim>\<open>DF\<close> column is there when no permutation
  test is requested; \<^verbatim>\<open>_welch_ingredients\<close> is the one the specification describes.
\<close>

theorem weights_degrees_of_freedom:
  assumes "fit E a w = (w', Inr r)"
    and "weights a = WName nm" and "wls_dof_correction a" and "cluster a = None"
    and "welch_ingredients E = welch_ingredients_spec s2"
  shows "\<exists>keys dvcol vals tbl x evs ws.
           map_of (data (self w)) nm = Some keys \<and>
           map_of (data (self w)) (split_tilde_first (formula (self w))) = Some dvcol \<and>
           series_reals dvcol = Inr vals \<and>
           coefs (self w') = Some tbl \<and> design_matrix (self w') = Some x \<and>
           emitted w' = emitted w @ evs \<and> warnings (self w') = warnings (self w) @ ws \<and>
           (if nunique keys \<noteq> 2
            then Warning welch_msg \<in> set evs \<and> welch_msg \<in> set ws \<and>
                 (\<not> truthy_int (permute a) \<longrightarrow>
                    map_of (columns tbl) ''DF'' =
                      Some (replicate (shape1 x)
                              (Num (real_of_int (int (shape0 x) - int (shape1 x))))))
            else Warning welch_msg \<notin> set evs \<and> welch_msg \<notin> set ws \<and>
                 (\<not> truthy_int (permute a) \<longrightarrow>
                    map_of (columns tbl) ''DF'' =
                      Some (replicate (shape1 x)
                        (Num ((\<Sum>k\<leftarrow>remdups keys. s2 (group_values keys vals k))\<^sup>2 /
                              (\<Sum>k\<leftarrow>remdups keys. (s2 (group_values keys vals k))\<^sup>2 /
                                 (real (length (group_values keys vals k)) - 1)))))))"
proof -
  let ?w0 = "check_permute (permute a) w"
  from assms(1) obtain w1 rb cl weight_vals wg y x b se t res w4 w5 df where
    sr: "select_robust (robust a) (cluster a) ?w0 = (w1, Inr (rb, cl))"
    and hw: "handle_weights E (weights a) (self (set_labels a w1)) = Inr (weight_vals, wg)"
    and rd: "resolve_df E a cl x wg w4 = (w5, Inr df)"
    and dm4: "design_matrix (self w4) = Some x"
    and w4: "warnings (self w4) = warnings (self ?w0)" "emitted w4 = emitted ?w0"
    and inf: "inference E a rb cl x y b se t res df w5 = (w', Inr r)"
    by (rule fit_InrE)
  from inf obtain w6 ci_l ci_u w7 p dfs sig results where
    ci: "confidence_intervals E a b se (replicate (length t) df) w5 = (w6, Inr (ci_l, ci_u))"
    and sg: "significance E a rb cl x y t df w6 = (w7, Inr (p, dfs, sig))"
    and mr: "make_results a x b ci_l ci_u se dfs t p sig = Inr results"
    and st: "store_results E a x y res results w7 = (w', Inr r)"
    by (rule inference_InrE)
  have cl: "cl = CNone"
    using sr assms(4) select_robust_no_cluster by simp
  have d1: "data (self (set_labels a w1)) = data (self w)"
    "formula (self (set_labels a w1)) = formula (self w)"
    using select_robust_proj[OF sr] by simp_all
  from handle_weights_WName[OF hw[unfolded assms(2)]] d1 obtain keys dvcol vals where
    k: "map_of (data (self w)) nm = Some keys"
    "map_of (data (self w)) (split_tilde_first (formula (self w))) = Some dvcol"
    "series_reals dvcol = Inr vals" "wg = Some (keys, vals)"
    by auto
  from check_permute_emitted[of "permute a" w] obtain e0 where
    e0: "emitted ?w0 = emitted w @ e0" "set e0 \<subseteq> {Warning low_permute_msg}"
    by blast
  have "\<exists>s0. warnings (self ?w0) = warnings (self w) @ s0 \<and> set s0 \<subseteq> {low_permute_msg}"
    by (auto simp: check_permute_def split: option.splits)
  then obtain s0 where
    s0: "warnings (self ?w0) = warnings (self w) @ s0" "set s0 \<subseteq> {low_permute_msg}"
    by blast
  from confidence_intervals_world[OF ci] obtain e2 where
    e2: "emitted w6 = emitted w5 @ e2" "Warning welch_msg \<notin> set e2" "self w6 = self w5"
    by auto
  from significance_world[OF sg] obtain e3 where
    e3: "emitted w7 = emitted w6 @ e3" "Warning welch_msg \<notin> set e3" "self w7 = self w6"
    by auto
  have fin: "emitted w' = emitted w7" "warnings (self w') = warnings (self w7)"
    "coefs (self w') = Some results" "design_matrix (self w') = design_matrix (self w7)"
    using store_results_world[OF st] store_results_Inr[OF st] by simp_all
  have lt: "length t = shape1 x"
    using make_results_Inr(2)[OF mr] by (simp add: shape1_def)
  have DF: "map_of (columns results) ''DF'' = Some (replicate (shape1 x) (Num df))"
    if "\<not> truthy_int (permute a)"
    using make_results_Inr(8)[OF mr that] significance_parametric(1)[OF sg that] lt by simp
  have nw: "Warning welch_msg \<notin> set e0" "welch_msg \<notin> set s0"
    using e0(2) s0(2) msgs_differ by auto
  show ?thesis
  proof (cases "nunique keys \<noteq> 2")
    case True
    with rd cl k(4) assms(3) have
      w5: "w5 = warn welch_msg w4" and df: "df = real_of_int (int (shape0 x) - int (shape1 x))"
      by (auto simp: resolve_df_def)
    have E: "emitted w' = emitted w @ (e0 @ [Warning welch_msg] @ e2 @ e3)"
      using fin(1) e3(1) e2(1) w5 w4(2) e0(1) by simp
    have W: "warnings (self w') = warnings (self w) @ (s0 @ [welch_msg])"
      using fin(2) e3(3) e2(3) w5 w4(1) s0(1) by simp
    have D: "design_matrix (self w') = Some x"
      using fin(4) e3(3) e2(3) w5 dm4 by simp
    show ?thesis
      apply (rule exI[of _ keys], rule exI[of _ dvcol], rule exI[of _ vals])
      apply (rule exI[of _ results], rule exI[of _ x])
      apply (rule exI[of _ "e0 @ [Warning welch_msg] @ e2 @ e3"], rule exI[of _ "s0 @ [welch_msg]"])
      using k(1-3) fin(3) D E W True DF df by simp
  next
    case False
    with rd cl k(4) assms(3) have
      w5: "w5 = w4" and df: "df = welch_df E keys vals"
      by (auto simp: resolve_df_def)
    have E: "emitted w' = emitted w @ (e0 @ e2 @ e3)"
      using fin(1) e3(1) e2(1) w5 w4(2) e0(1) by simp
    have W: "warnings (self w') = warnings (self w) @ s0"
      using fin(2) e3(3) e2(3) w5 w4(1) s0(1) by simp
    have D: "design_matrix (self w') = Some x"
      using fin(4) e3(3) e2(3) w5 dm4 by simp
    show ?thesis
      apply (rule exI[of _ keys], rule exI[of _ dvcol], rule exI[of _ vals])
      apply (rule exI[of _ results], rule exI[of _ x])
      apply (rule exI[of _ "e0 @ e2 @ e3"], rule exI[of _ s0])
      using k(1-3) fin(3) D E W False DF df nw e2(2) e3(2) welch_df_spec[OF assms(5)]
      by simp
  qed
qed

theorem weights_degrees_of_freedom_witness:
  "snd (fit sample_env two_group_args grouped_world) = Inr None \<and>
   weights two_group_args = WName ''Group'' \<and> wls_dof_correction two_group_args \<and>
   cluster two_group_args = None \<and>
   welch_ingredients sample_env = welch_ingredients_spec sample_var \<and>
   (\<exists>tbl x. coefs (self (fst (fit sample_env two_group_args grouped_world))) = Some tbl \<and>
      design_matrix (self (fst (fit sample_env two_group_args grouped_world))) = Some x) \<and>
   emitted (fst (fit sample_env two_group_args grouped_world)) = [] \<and>
   map_option (\<lambda>tbl. map_of (columns tbl) ''DF'')
     (coefs (self (fst (fit sample_env two_group_args grouped_world)))) =
     Some (Some [Num (676 / 205)]) \<and>
   handle_weights sample_env (WName ''Site'') (self grouped_world) =
     Inr (Some [1 / 2, 1 / 2, 1 / 8, 1 / 8, 1 / 8, 1 / 8],
          Some ([Str ''x'', Str ''x'', Str ''y'', Str ''y'', Str ''z'', Str ''z''],
                [1, 3, 2, 6, 4, 8])) \<and>
   snd (fit sample_env three_group_args grouped_world) = Inr None \<and>
   emitted (fst (fit sample_env three_group_args grouped_world)) = [Warning welch_msg] \<and>
   warnings (self (fst (fit sample_env three_group_args grouped_world))) = [welch_msg] \<and>
   map_option (\<lambda>tbl. map_of (columns tbl) ''DF'')
     (coefs (self (fst (fit sample_env three_group_args grouped_world)))) =
     Some (Some [Num 5])"
proof -
  have ev: "snd (fit sample_env two_group_args grouped_world) = Inr None"
    by (simp add: fit_defs sample_defs grouped_data_def grouped_lm_def grouped_world_def
        two_group_args_def Let_def)
  then have e: "fit sample_env two_group_args grouped_world =
      (fst (fit sample_env two_group_args grouped_world), Inr None)"
    by (simp add: prod_eq_iff)
  have h: "weights two_group_args = WName ''Group''" "wls_dof_correction two_group_args"
    "cluster two_group_args = None"
    "welch_ingredients sample_env = welch_ingredients_spec sample_var"
    by (simp_all add: sample_defs two_group_args_def)
  from weights_degrees_of_freedom[OF e h] obtain tbl x where
    "coefs (self (fst (fit sample_env two_group_args grouped_world))) = Some tbl"
    "design_matrix (self (fst (fit sample_env two_group_args grouped_world))) = Some x"
    by (elim exE conjE)
  then have ex: "\<exists>tbl x. coefs (self (fst (fit sample_env two_group_args grouped_world))) = Some tbl \<and>
      design_matrix (self (fst (fit sample_env two_group_args grouped_world))) = Some x"
    by blast
  have two: "emitted (fst (fit sample_env two_group_args grouped_world)) = []"
    "map_option (\<lambda>tbl. map_of (columns tbl) ''DF'')
     (coefs (self (fst (fit sample_env two_group_args grouped_world)))) =
     Some (Some [Num (676 / 205)])"
    by (simp_all add: fit_defs sample_defs grouped_data_def grouped_lm_def grouped_world_def
        two_group_args_def Let_def power2_eq_square)
  have wt: "handle_weights sample_env (WName ''Site'') (self grouped_world) =
     Inr (Some [1 / 2, 1 / 2, 1 / 8, 1 / 8, 1 / 8, 1 / 8],
          Some ([Str ''x'', Str ''x'', Str ''y'', Str ''y'', Str ''z'', Str ''z''],
                [1, 3, 2, 6, 4, 8]))"
    by (simp add: fit_defs sample_defs grouped_data_def grouped_lm_def grouped_world_def
        Let_def power2_eq_square)
  have three: "snd (fit sample_env three_group_args grouped_world) = Inr None"
    "emitted (fst (fit sample_env three_group_args grouped_world)) = [Warning welch_msg]"
    "warnings (self (fst (fit sample_env three_group_args grouped_world))) = [welch_msg]"
    "map_option (\<lambda>tbl. map_of (columns tbl) ''DF'')
     (coefs (self (fst (fit sample_env three_group_args grouped_world)))) =
     Some (Some [Num 5])"
    by (simp_all add: fit_defs sample_defs grouped_data_def grouped_lm_def grouped_world_def
        three_group_args_def Let_def power2_eq_square)
  from ev h ex two wt three show ?thesis
    by (intro conjI)
qed

text \<open>
  C5 as stated fails: on the six-row data, weights from \<^verbatim>\<open>Site\<close>, a column with three
  groups of two rows each (the weights are 1/2, 1/8 and 1/8), together with cluster-robust
  errors over \<^verbatim>\<open>Group\<close> give no warning, and the degrees of freedom are those of the
  clusters, 2 - 1 = 1, not \<open>n - p = 5\<close>. This holds whatever \<^verbatim>\<open>_ols\<close> returns for the
  coefficient and whatever the values of the Student-t functions are.
\<close>

theorem weights_degrees_of_freedom_counterexample:
  "(\<forall>b s t r1 r2 r3 r4 r5 r6 cdf ppf.
      let E = given_env sample_dmatrices ([b], [s], [t], [r1, r2, r3, r4, r5, r6]) cdf ppf
      in handle_weights E (WName ''Site'') (self grouped_world) =
           Inr (Some [1 / 2, 1 / 2, 1 / 8, 1 / 8, 1 / 8, 1 / 8],
                Some ([Str ''x'', Str ''x'', Str ''y'', Str ''y'', Str ''z'', Str ''z''],
                      [1, 3, 2, 6, 4, 8])) \<and>
         snd (fit E weighted_cluster_args grouped_world) = Inr None \<and>
         emitted (fst (fit E weighted_cluster_args grouped_world)) = [] \<and>
         warnings (self (fst (fit E weighted_cluster_args grouped_world))) = [] \<and>
         design_matrix (self (fst (fit E weighted_cluster_args grouped_world))) =
           Some \<lparr>names = [''Intercept''], rows = [[1], [1], [1], [1], [1], [1]]\<rparr> \<and>
         map_option (\<lambda>tbl. map_of (columns tbl) ''DF'')
           (coefs (self (fst (fit E weighted_cluster_args grouped_world)))) =
           Some (Some [Num 1])) \<and>
   weights weighted_cluster_args = WName ''Site'' \<and>
   wls_dof_correction weighted_cluster_args \<and>
   cluster weighted_cluster_args = Some ''Group'' \<and>
   nunique [Str ''x'', Str ''x'', Str ''y'', Str ''y'', Str ''z'', Str ''z''] = 3 \<and>
   real_of_int (int (length [[1::real], [1], [1], [1], [1], [1]]) - int (length [''Intercept''])) = 5"
proof -
  have a: "\<forall>b s t r1 r2 r3 r4 r5 r6 cdf ppf.
      let E = given_env sample_dmatrices ([b], [s], [t], [r1, r2, r3, r4, r5, r6]) cdf ppf
      in handle_weights E (WName ''Site'') (self grouped_world) =
           Inr (Some [1 / 2, 1 / 2, 1 / 8, 1 / 8, 1 / 8, 1 / 8],
                Some ([Str ''x'', Str ''x'', Str ''y'', Str ''y'', Str ''z'', Str ''z''],
                      [1, 3, 2, 6, 4, 8])) \<and>
         snd (fit E weighted_cluster_args grouped_world) = Inr None \<and>
         emitted (fst (fit E weighted_cluster_args grouped_world)) = [] \<and>
         warnings (self (fst (fit E weighted_cluster_args grouped_world))) = [] \<and>
         design_matrix (self (fst (fit E weighted_cluster_args grouped_world))) =
           Some \<lparr>names = [''Intercept''], rows = [[1], [1], [1], [1], [1], [1]]\<rparr> \<and>
         map_option (\<lambda>tbl. map_of (columns tbl) ''DF'')
           (coefs (self (fst (fit E weighted_cluster_args grouped_world)))) =
           Some (Some [Num 1])"
    by (simp add: fit_defs sample_defs grouped_data_def grouped_lm_def grouped_world_def given_env_def weighted_cluster_args_def
        Let_def power2_eq_square)
  have b: "weights weighted_cluster_args = WName ''Site''"
    "wls_dof_correction weighted_cluster_args"
    "cluster weighted_cluster_args = Some ''Group''"
    "nunique [Str ''x'', Str ''x'', Str ''y'', Str ''y'', Str ''z'', Str ''z''] = 3"
    "real_of_int (int (length [[1::real], [1], [1], [1], [1], [1]]) - int (length [''Intercept''])) = 5"
    by (simp_all add: sample_defs weighted_cluster_args_def nunique_def)
  from a b show ?thesis
    by (intro conjI)
qed

text \<open>
  C6: for every call of \<^verbatim>\<open>Lm.fit\<close> with a truthy \<^verbatim>\<open>robust\<close>, whatever \<^verbatim>\<open>n_jobs\<close> is, every
  dispatch of \<^verbatim>\<open>_chunk_perm_ols\<close> the call makes has worker count 1; and when a
  permutation test is requested and the call returns normally, that dispatch was made.
\<close>

theorem robust_permutation_single_worker:
  assumes "truthy_robust (robust a)"
  shows "\<exists>evs. emitted (fst (fit E a w)) = emitted w @ evs \<and>
           (\<forall>j n. Parallel ''_chunk_perm_ols'' j n \<in> set evs \<longrightarrow> j = 1) \<and>
           (\<forall>r pm. snd (fit E a w) = Inr r \<and> permute a = Some pm \<and> pm \<noteq> 0 \<longrightarrow>
                Parallel ''_chunk_perm_ols'' 1 (nat pm) \<in> set evs)"
proof -
  let ?w0 = "check_permute (permute a) w"
  from check_permute_emitted obtain e0 where
    e0: "emitted ?w0 = emitted w @ e0" "set e0 \<subseteq> {Warning low_permute_msg}"
    by blast
  from fit_appends[of a w E] obtain e1 where
    e1: "emitted (fst (fit E a w)) = emitted ?w0 @ e1" "set e1 \<subseteq> fit_events a"
    unfolding only_appends_def by blast
  have one: "perm_n_jobs (robust a) (n_jobs a) = 1"
    using assms by (simp add: perm_n_jobs_def)
  have a: "emitted (fst (fit E a w)) = emitted w @ (e0 @ e1)"
    using e0 e1 by simp
  have b: "j = 1" if "Parallel ''_chunk_perm_ols'' j n \<in> set (e0 @ e1)" for j n
    using that e0(2) e1(2) one by (auto simp: fit_events_def)
  have c: "Parallel ''_chunk_perm_ols'' 1 (nat pm) \<in> set (e0 @ e1)"
    if "snd (fit E a w) = Inr r" "permute a = Some pm" "pm \<noteq> 0" for r pm
  proof -
    from that(1) have "fit E a w = (fst (fit E a w), Inr r)"
      by (simp add: prod_eq_iff)
    from fit_Inr_permute[OF this that(2,3)] obtain evs where
      "emitted (fst (fit E a w)) = emitted ?w0 @ evs @
         [Parallel ''_chunk_perm_ols'' (perm_n_jobs (robust a) (n_jobs a)) (nat pm)]"
      by blast
    with e1(1) one have "e1 = evs @ [Parallel ''_chunk_perm_ols'' 1 (nat pm)]"
      by simp
    then show ?thesis by simp
  qed
  from a b c show ?thesis
    by (intro exI[of _ "e0 @ e1"]) blast
qed

theorem robust_permutation_single_worker_witness:
  "truthy_robust (robust permute_args) \<and> n_jobs permute_args = 4 \<and>
   emitted (fst (fit sample_env permute_args sample_world)) =
     emitted sample_world @ [Warning low_permute_msg, Parallel ''_chunk_perm_ols'' 1 3]"
proof -
  have t: "truthy_robust (robust permute_args)"
    by (simp add: sample_defs permute_args_def)
  have "emitted (fst (fit sample_env permute_args sample_world)) =
     emitted sample_world @ [Warning low_permute_msg, Parallel ''_chunk_perm_ols'' 1 3]"
    using robust_permutation_single_worker[OF t, of sample_env sample_world]
    by (simp add: fit_defs sample_defs permute_args_def Let_def upt_small numeral_3_eq_3)
  with t show ?thesis
    by (simp add: sample_defs permute_args_def)
qed

text \<open>
  C7, as the specification's estimators have it: with more rows than columns, the HC0
  standard errors are the HC1 standard errors divided by the square root of
  \<open>n / (n - p)\<close>; it is the covariance that HC1 scales by \<open>n / (n - p)\<close>.
\<close>

theorem hc0_se_from_hc1:
  assumes "n_columns X < length X"
  shows "standard_errors (hc0 minv X y) =
           map (\<lambda>s. s / sqrt (real (length X) / (real (length X) - real (n_columns X))))
             (standard_errors (hc1 minv X y))"
proof -
  define k where "k = sqrt (real (length X) / (real (length X) - real (n_columns X)))"
  from assms have "0 < length X" by linarith
  with assms have "0 < real (length X) - real (n_columns X)" "0 < real (length X)" by simp_all
  then have "0 < real (length X) / (real (length X) - real (n_columns X))"
    by (rule_tac divide_pos_pos)
  then have "0 < k" unfolding k_def by (simp only: real_sqrt_gt_0_iff)
  have "standard_errors (hc1 minv X y) = map (\<lambda>s. s * k) (standard_errors (hc0 minv X y))"
    unfolding hc1_def k_def by (rule se_scale)
  with \<open>0 < k\<close> have "map (\<lambda>s. s / k) (standard_errors (hc1 minv X y)) =
      standard_errors (hc0 minv X y)"
    by (simp add: comp_def)
  then show ?thesis
    unfolding k_def by simp
qed

theorem hc0_se_from_hc1_witness:
  "n_columns [[1], [1]] < length [[1], [1::real]] \<and>
   standard_errors (hc0 inverse_1x1 [[1], [1]] [0, 2]) =
     map (\<lambda>s. s / sqrt (real (length [[1], [1::real]])
                          / (real (length [[1], [1::real]]) - real (n_columns [[1], [1]]))))
       (standard_errors (hc1 inverse_1x1 [[1], [1]] [0, 2]))"
proof -
  have h: "n_columns [[1], [1]] < length [[1], [1::real]]"
    by (simp add: n_columns_def)
  from hc0_se_from_hc1[OF h] h show ?thesis
    by blast
qed

text \<open>
  C7 as stated fails: for the intercept-only design with two observations and the
  response \<open>[0, 2]\<close>, \<open>n / (n - p) = 2\<close>, the HC1 standard error is 1 and the HC0 standard
  error is the square root of one half, not one half.
\<close>

theorem hc0_se_from_hc1_counterexample:
  "standard_errors (hc0 inverse_1x1 [[1], [1]] [0, 2]) \<noteq>
     map (\<lambda>s. s / (real (length [[1], [1::real]]) / (real (length [[1], [1::real]]) - real (n_columns [[1], [1]]))))
       (standard_errors (hc1 inverse_1x1 [[1], [1]] [0, 2]))"
proof -
  have "sqrt (1 / 2) \<noteq> 1 / 2"
  proof
    assume e: "sqrt (1 / 2) = 1 / 2"
    have "(sqrt (1 / 2))\<^sup>2 = 1 / 2" by simp
    then have "(1 / 2 :: real)\<^sup>2 = 1 / 2" unfolding e .
    then show False by (simp add: power2_eq_square)
  qed
  then show ?thesis
    unfolding sample_hc0_se sample_hc1_se by (simp add: n_columns_def del: real_sqrt_eq_iff)
qed





text \<open>
  C10: for every call of \<^verbatim>\<open>Lm2.fit\<close> with \<^verbatim>\<open>robust=True\<close> the standard-error type
  becomes \<^verbatim>\<open>robust (hc0)\<close> and the estimator handed to the second-level fits is
  \<^verbatim>\<open>hc0\<close>, whereas \<^verbatim>\<open>Lm.fit\<close> with \<^verbatim>\<open>robust=True\<close> sets \<^verbatim>\<open>robust (hc1)\<close> and selects
  \<^verbatim>\<open>hc1\<close>.
\<close>

theorem Lm2_robust_True_is_hc0:
  "se_type (fst (Lm2_fit_head (RBool True) conf pm perm_on rk nboot tc cl m)) =
     Some ''robust (hc0)'' \<and>
   (\<forall>m' rb cv. Lm2_fit_head (RBool True) conf pm perm_on rk nboot tc cl m = (m', Inr (rb, cv))
      \<longrightarrow> rb = RStr ''hc0'' \<and>
          robust (second_level_args rb conf nboot njobs nlags) = RStr ''hc0'') \<and>
   se_type (self (fst (select_robust (RBool True) cl w))) = Some ''robust (hc1)'' \<and>
   (\<forall>w1 rb cv. select_robust (RBool True) cl w = (w1, Inr (rb, cv)) \<longrightarrow> rb = RStr ''hc1'')"
proof -
  have A: "rb = RStr ''hc0'' \<and>
          robust (second_level_args rb conf nboot njobs nlags) = RStr ''hc0''"
    if "Lm2_fit_head (RBool True) conf pm perm_on rk nboot tc cl m = (m', Inr (rb, cv))"
    for m' rb cv
    using Lm2_head_selected[OF that] by (simp add: second_level_args_def)
  have B: "rb = RStr ''hc1''"
    if "select_robust (RBool True) cl w = (w1, Inr (rb, cv))" for w1 rb cv
    using select_robust_True_selected[OF that] .
  note C = Lm2_head_se_type[of conf pm perm_on rk nboot tc cl m]
  note D = select_robust_True_label[of cl w]
  from A B C D show ?thesis
    by blast
qed

theorem Lm2_robust_True_is_hc0_witness:
  "Lm2_fit_head (RBool True) ''standard'' None ''t-stat'' False 500 (TBool False) None sample_lm2 =
     (sample_lm2\<lparr>se_type := Some ''robust (hc0)'', ci_type := Some ''standard'',
                 sig_type := Some ''parametric'', ranked_data := False\<rparr>,
      Inr (RStr ''hc0'', CNone)) \<and>
   se_type (fst (Lm2_fit_head (RBool True) ''standard'' None ''t-stat'' False 500 (TBool False)
      None sample_lm2)) = Some ''robust (hc0)''"
proof -
  have "se_type (fst (Lm2_fit_head (RBool True) ''standard'' None ''t-stat'' False 500 (TBool False)
      None sample_lm2)) = Some ''robust (hc0)''"
    using Lm2_robust_True_is_hc0[of "''standard''" None "''t-stat''" False 500 "TBool False" None sample_lm2]
    by blast
  moreover have "Lm2_fit_head (RBool True) ''standard'' None ''t-stat'' False 500 (TBool False) None sample_lm2 =
     (sample_lm2\<lparr>se_type := Some ''robust (hc0)'', ci_type := Some ''standard'',
                 sig_type := Some ''parametric'', ranked_data := False\<rparr>,
      Inr (RStr ''hc0'', CNone))"
    by (simp add: Lm2_fit_head_def sample_lm2_def)
  ultimately show ?thesis by simp
qed

end
